theory Spec2Isabelle
  imports Main "HOL-Library.Word" "HOL-Library.Sublist"
begin

section \<open>SDP negotiation and call state of \<^verbatim>\<open>src/core/sipe-media.c\<close>\<close>

text \<open>
  The development embeds the functions of \<^verbatim>\<open>sipe-media.c\<close> as HOL functions.
  C pointers that may be \<^verbatim>\<open>NULL\<close> are options, the undefined behaviours the
  source can run into (a \<^verbatim>\<open>NULL\<close> dereference, a read past the end of a token
  vector, a read of an uninitialised local) are values of type \<open>fault\<close>, and a function
  that can run into one returns \<open>fault + 'a\<close>. The account structure carries the list
  of the messages and engine requests sent so far. Output on \<^verbatim>\<open>stdout\<close>
  (\<^verbatim>\<open>printf\<close>) is not modelled. C \<^verbatim>\<open>int\<close> values are \<open>int\<close>, within the range
  of \<^verbatim>\<open>int\<close> where \<^verbatim>\<open>atoi\<close> computes them; where the source stores into a
  narrower unsigned variable, the truncation is written out.
\<close>

subsection \<open>Faults\<close>

datatype fault = NullDeref | OutOfBounds | Uninitialised

subsection \<open>The C library and GLib string functions the source calls\<close>

definition CRLF :: string where
  "CRLF = [CHR 0x0D, CHR 0x0A]"

text \<open>\<^verbatim>\<open>strcmp\<close>: the sign of the first differing byte.\<close>

fun strcmp :: "string \<Rightarrow> string \<Rightarrow> int" where
  "strcmp [] [] = 0"
| "strcmp [] (y # ys) = -1"
| "strcmp (x # xs) [] = 1"
| "strcmp (x # xs) (y # ys) =
     (if x = y then strcmp xs ys
      else if (of_char x :: int) < of_char y then -1 else 1)"

text \<open>\<^verbatim>\<open>g_strcmp0\<close>: \<^verbatim>\<open>strcmp\<close> that accepts \<^verbatim>\<open>NULL\<close>, which sorts before every string.\<close>

fun g_strcmp0 :: "string option \<Rightarrow> string option \<Rightarrow> int" where
  "g_strcmp0 None None = 0"
| "g_strcmp0 None (Some b) = -1"
| "g_strcmp0 (Some a) None = 1"
| "g_strcmp0 (Some a) (Some b) = strcmp a b"

text \<open>\<^verbatim>\<open>g_str_has_prefix\<close>.\<close>

definition g_str_has_prefix :: "string \<Rightarrow> string \<Rightarrow> bool" where
  "g_str_has_prefix s p = (take (length p) s = p)"

text \<open>
  \<^verbatim>\<open>strstr\<close>, as \<^verbatim>\<open>g_strsplit\<close> uses it: the text before the first occurrence of
  the delimiter and the text after it, or \<open>None\<close> when the delimiter does not occur.
\<close>

fun strstr_split :: "string \<Rightarrow> string \<Rightarrow> (string \<times> string) option" where
  "strstr_split d [] = (if d = [] then Some ([], []) else None)"
| "strstr_split d (c # s) =
     (if take (length d) (c # s) = d then Some ([], drop (length d) (c # s))
      else (case strstr_split d s of
              None \<Rightarrow> None
            | Some (tok, rest) \<Rightarrow> Some (c # tok, rest)))"

lemma strstr_split_length:
  "strstr_split d s = Some (tok, rest) \<Longrightarrow> length s = length tok + length d + length rest"
proof (induction s arbitrary: tok)
  case Nil
  then show ?case by (simp split: if_splits)
next
  case (Cons c s)
  show ?case
  proof (cases "take (length d) (c # s) = d")
    case True
    then have "length (take (length d) (c # s)) = length d"
      by simp
    then have "length d \<le> length (c # s)"
      by (simp del: take_Suc_Cons)
    with True Cons.prems show ?thesis by auto
  next
    case False
    with Cons.prems obtain tok' where "strstr_split d s = Some (tok', rest)" "tok = c # tok'"
      by (auto split: option.splits)
    with Cons.IH show ?thesis by simp
  qed
qed

definition G_MAXINT :: int where
  "G_MAXINT = 2147483647"

text \<open>
  The loop of \<^verbatim>\<open>g_strsplit\<close>: \<^verbatim>\<open>while (--max_tokens && s)\<close> cuts one token off the
  remainder; what is left when the loop ends is the last token.
\<close>

function g_strsplit_loop :: "string \<Rightarrow> int \<Rightarrow> string \<Rightarrow> string list" where
  "g_strsplit_loop d max_tokens remainder =
     (if max_tokens - 1 \<noteq> 0 \<and> d \<noteq> [] then
        (case strstr_split d remainder of
           Some (tok, rest) \<Rightarrow> tok # g_strsplit_loop d (max_tokens - 1) rest
         | None \<Rightarrow> [remainder])
      else [remainder])"
  by pat_completeness auto
termination
proof (relation "measure (\<lambda>(d, m, r). length r)")
  show "wf (measure (\<lambda>(d, m, r). length r))" by simp
next
  fix d :: string and max_tokens :: int and remainder x2 tok rest
  assume "max_tokens - 1 \<noteq> 0 \<and> d \<noteq> []"
    and "strstr_split d remainder = Some x2" and "(tok, rest) = x2"
  then have "length remainder = length tok + length d + length rest" "d \<noteq> []"
    using strstr_split_length [of d remainder tok rest] by auto
  then show "((d, max_tokens - 1, rest), d, max_tokens, remainder)
      \<in> measure (\<lambda>(d, m, r). length r)"
    by simp
qed

declare g_strsplit_loop.simps [simp del]

text \<open>
  \<^verbatim>\<open>g_strsplit (string, delimiter, max_tokens)\<close>: the empty string gives the empty
  vector; \<^verbatim>\<open>max_tokens < 1\<close> stands for \<^verbatim>\<open>G_MAXINT\<close>. The vector is the list of
  its strings (its \<^verbatim>\<open>NULL\<close> terminator is the end of the list).
\<close>

definition g_strsplit :: "string \<Rightarrow> string \<Rightarrow> int \<Rightarrow> string list" where
  "g_strsplit str delimiter max_tokens =
     (if str = [] then []
      else g_strsplit_loop delimiter (if max_tokens < 1 then G_MAXINT else max_tokens) str)"

text \<open>
  \<^verbatim>\<open>g_strsplit_set (string, delimiters, max_tokens)\<close>: one pass over the bytes, a
  token ends at every byte of the delimiter set while fewer than \<^verbatim>\<open>max_tokens - 1\<close>
  tokens have been cut.
\<close>

fun g_strsplit_set_loop :: "string \<Rightarrow> int \<Rightarrow> int \<Rightarrow> string \<Rightarrow> string \<Rightarrow> string list" where
  "g_strsplit_set_loop ds max_tokens n_tokens current [] = [current]"
| "g_strsplit_set_loop ds max_tokens n_tokens current (c # s) =
     (if c \<in> set ds \<and> n_tokens + 1 < max_tokens
      then current # g_strsplit_set_loop ds max_tokens (n_tokens + 1) [] s
      else g_strsplit_set_loop ds max_tokens n_tokens (current @ [c]) s)"

definition g_strsplit_set :: "string \<Rightarrow> string \<Rightarrow> int \<Rightarrow> string list" where
  "g_strsplit_set str delimiters max_tokens =
     (if str = [] then []
      else g_strsplit_set_loop delimiters
             (if max_tokens < 1 then G_MAXINT else max_tokens) 0 [] str)"

text \<open>
  Reading \<^verbatim>\<open>tokens[i]\<close> of a \<^verbatim>\<open>NULL\<close>-terminated vector: a string inside the
  vector, \<^verbatim>\<open>NULL\<close> at its terminator, and a read out of bounds after it.
\<close>

definition vec_get :: "string list \<Rightarrow> nat \<Rightarrow> fault + string option" where
  "vec_get v i =
     (if i < length v then Inr (Some (v ! i))
      else if i = length v then Inr None
      else Inl OutOfBounds)"

text \<open>
  \<^verbatim>\<open>atoi\<close>: white space, an optional sign, then decimal digits; anything else ends
  the number. The C library computes it as \<^verbatim>\<open>(int) strtol (nptr, NULL, 10)\<close>:
  \<^verbatim>\<open>strtol\<close> clamps the number to the range of \<^verbatim>\<open>long\<close>, which has 64 bits,
  and the conversion to \<^verbatim>\<open>int\<close> keeps the low 32 bits as a two's complement
  number. A \<^verbatim>\<open>NULL\<close> argument is a fault.
\<close>

definition isspace :: "char \<Rightarrow> bool" where
  "isspace c = (c \<in> set [CHR '' '', CHR 0x09, CHR 0x0A, CHR 0x0B, CHR 0x0C, CHR 0x0D])"

definition isdigit :: "char \<Rightarrow> bool" where
  "isdigit c = (48 \<le> (of_char c :: int) \<and> (of_char c :: int) \<le> 57)"

fun atoi_digits :: "int \<Rightarrow> string \<Rightarrow> int" where
  "atoi_digits acc [] = acc"
| "atoi_digits acc (c # s) =
     (if isdigit c then atoi_digits (acc * 10 + (of_char c - 48)) s else acc)"

definition strtol_clamp :: "int \<Rightarrow> int" where
  "strtol_clamp v =
     (if v < - 9223372036854775808 then - 9223372036854775808
      else if 9223372036854775807 < v then 9223372036854775807
      else v)"

definition int_of_long :: "int \<Rightarrow> int" where
  "int_of_long v = (v + 2147483648) mod 4294967296 - 2147483648"

definition atoi_str :: "string \<Rightarrow> int" where
  "atoi_str s =
     int_of_long (strtol_clamp
       (case dropWhile isspace s of
          [] \<Rightarrow> 0
        | c # r \<Rightarrow>
            if c = CHR ''-'' then - atoi_digits 0 r
            else if c = CHR ''+'' then atoi_digits 0 r
            else atoi_digits 0 (c # r)))"

definition atoi :: "string option \<Rightarrow> fault + int" where
  "atoi p = (case p of None \<Rightarrow> Inl NullDeref | Some s \<Rightarrow> Inr (atoi_str s))"

text \<open>\<^verbatim>\<open>printf\<close> conversions: \<^verbatim>\<open>%u\<close> (of a value that is not negative),
  \<^verbatim>\<open>%d\<close> and \<^verbatim>\<open>%s\<close> (which prints a \<^verbatim>\<open>NULL\<close> string as
  \<^verbatim>\<open>(null)\<close>).\<close>

function fmt_u :: "int \<Rightarrow> string" where
  "fmt_u n = (if n < 10 then [char_of (48 + n)] else fmt_u (n div 10) @ [char_of (48 + n mod 10)])"
  by pat_completeness auto
termination
  by (relation "measure nat") auto

declare fmt_u.simps [simp del]

definition fmt_d :: "int \<Rightarrow> string" where
  "fmt_d i = (if i < 0 then CHR ''-'' # fmt_u (- i) else fmt_u i)"

definition fmt_s :: "string option \<Rightarrow> string" where
  "fmt_s p = (case p of None \<Rightarrow> ''(null)'' | Some s \<Rightarrow> s)"

subsection \<open>Sequencing of computations that can fault\<close>

definition fbind :: "fault + 'a \<Rightarrow> ('a \<Rightarrow> fault + 'b) \<Rightarrow> fault + 'b" where
  "fbind m f = (case m of Inl e \<Rightarrow> Inl e | Inr x \<Rightarrow> f x)"

lemma fbind_simps [simp]:
  "fbind (Inl e) f = Inl e"
  "fbind (Inr x) f = f x"
  by (simp_all add: fbind_def)

lemma fbind_cong [fundef_cong]:
  "m = m' \<Longrightarrow> (\<And>x. m' = Inr x \<Longrightarrow> f x = f' x) \<Longrightarrow> fbind m f = fbind m' f'"
  by (cases m') (simp_all add: fbind_def)

lemma fbind_eq_Inr:
  "fbind m f = Inr y \<longleftrightarrow> (\<exists>x. m = Inr x \<and> f x = Inr y)"
  by (cases m) simp_all

subsection \<open>Data model\<close>

datatype SipeCallState =
  SIPE_CALL_CONNECTING | SIPE_CALL_RUNNING | SIPE_CALL_HELD | SIPE_CALL_FINISHED

text \<open>The enumerations of the media engine's interface that the source switches on.\<close>

datatype PurpleMediaSessionType = PURPLE_MEDIA_AUDIO | PURPLE_MEDIA_VIDEO

datatype PurpleMediaComponentType =
  PURPLE_MEDIA_COMPONENT_NONE | PURPLE_MEDIA_COMPONENT_RTP | PURPLE_MEDIA_COMPONENT_RTCP

datatype PurpleMediaNetworkProtocol =
  PURPLE_MEDIA_NETWORK_PROTOCOL_UDP | PURPLE_MEDIA_NETWORK_PROTOCOL_TCP

datatype PurpleMediaCandidateType =
  PURPLE_MEDIA_CANDIDATE_TYPE_HOST | PURPLE_MEDIA_CANDIDATE_TYPE_SRFLX
| PURPLE_MEDIA_CANDIDATE_TYPE_PRFLX | PURPLE_MEDIA_CANDIDATE_TYPE_RELAY
| PURPLE_MEDIA_CANDIDATE_TYPE_MULTICAST

datatype PurpleMediaInfoType =
  PURPLE_MEDIA_INFO_HANGUP | PURPLE_MEDIA_INFO_ACCEPT | PURPLE_MEDIA_INFO_CONNECTED
| PURPLE_MEDIA_INFO_REJECT | PURPLE_MEDIA_INFO_MUTE | PURPLE_MEDIA_INFO_UNMUTE
| PURPLE_MEDIA_INFO_PAUSE | PURPLE_MEDIA_INFO_UNPAUSE
| PURPLE_MEDIA_INFO_HOLD | PURPLE_MEDIA_INFO_UNHOLD

text \<open>A codec object of the engine: what its getters return.\<close>

record PurpleMediaCodec =
  codec_id :: int
  encoding_name :: "string option"
  media_type :: PurpleMediaSessionType
  clock_rate :: int
  optional_parameters :: "(string \<times> string) list"

definition purple_media_codec_new ::
  "int \<Rightarrow> string option \<Rightarrow> PurpleMediaSessionType \<Rightarrow> int \<Rightarrow> PurpleMediaCodec" where
  "purple_media_codec_new i name ty rate =
     \<lparr>codec_id = i, encoding_name = name, media_type = ty, clock_rate = rate,
      optional_parameters = []\<rparr>"

text \<open>
  A candidate object of the engine. The constructor takes the port as a
  \<^verbatim>\<open>guint\<close>; \<^verbatim>\<open>purple_media_candidate_get_port\<close> returns a \<^verbatim>\<open>guint16\<close>.
  Port and priority are unsigned in the source and integers that are not negative
  here.
\<close>

record PurpleMediaCandidate =
  foundation :: "string option"
  component_id :: PurpleMediaComponentType
  candidate_type :: PurpleMediaCandidateType
  protocol :: PurpleMediaNetworkProtocol
  ip :: "string option"
  port :: int
  priority :: int
  username :: "string option"
  password :: "string option"

definition purple_media_candidate_new ::
  "string option \<Rightarrow> PurpleMediaComponentType \<Rightarrow> PurpleMediaCandidateType \<Rightarrow>
   PurpleMediaNetworkProtocol \<Rightarrow> string option \<Rightarrow> int \<Rightarrow> PurpleMediaCandidate" where
  "purple_media_candidate_new f cid ty proto addr p =
     \<lparr>foundation = f, component_id = cid, candidate_type = ty, protocol = proto,
      ip = addr, port = p, priority = 0, username = None, password = None\<rparr>"

definition purple_media_candidate_get_port :: "PurpleMediaCandidate \<Rightarrow> int" where
  "purple_media_candidate_get_port c = port c mod 2 ^ 16"

text \<open>
  The engine's session object, as far as the source queries it: the local codecs and
  candidates of the stream \<^verbatim>\<open>sipe-voice\<close>, and the two flags
  \<^verbatim>\<open>purple_media_candidates_prepared\<close> and \<^verbatim>\<open>purple_media_accepted\<close> report.
  The call holds a pointer to it, which is \<^verbatim>\<open>NULL\<close> only between
  \<^verbatim>\<open>sipe_media_call_init\<close> and the assignment in
  \<^verbatim>\<open>sipe_media_incoming_invite\<close>; what the engine does when handed \<^verbatim>\<open>NULL\<close>
  is outside the source, and a function that would hand it over is a fault here.
\<close>

record PurpleMedia =
  local_codecs :: "PurpleMediaCodec list"
  local_candidates :: "PurpleMediaCandidate list"
  candidates_prepared :: bool
  accepted :: bool

text \<open>
  The structures of the SIP layer, whose declarations (\<^verbatim>\<open>sipmsg.h\<close>,
  \<^verbatim>\<open>sipe-session.h\<close>, \<^verbatim>\<open>sipe-dialog.h\<close>) are not among the sources, with
  the fields the source reads and writes; then the call, as the source declares it.
\<close>

record sipmsg =
  headers :: "(string \<times> string) list"
  body :: "string option"
  dont_free :: bool

record sip_session =
  session_callid :: "string option"

record sip_dialog =
  callid :: "string option"
  dialog_with :: "string option"

record sipe_media_call =
  media :: "PurpleMedia option"
  session :: "sip_session option"
  dialog :: "sip_dialog option"
  remote_ip :: "string option"
  remote_port :: "16 word"
  sdp_attrs :: "(string \<times> string) list"
  invitation :: "sipmsg option"
  remote_candidates :: "PurpleMediaCandidate list"
  remote_codecs :: "PurpleMediaCodec list"
  sdp_response :: "string option"
  legacy_mode :: bool
  state :: SipeCallState

subsection \<open>Attribute lists\<close>

text \<open>
  Modelled from the spec: \<^verbatim>\<open>sipe_utils_nameval_add\<close>,
  \<^verbatim>\<open>sipe_utils_nameval_find\<close> and \<^verbatim>\<open>sipe_utils_nameval_find_instance\<close> are
  defined in \<^verbatim>\<open>sipe-utils.c\<close>, which is not among the sources. The spec describes the
  attribute set as an ordered multimap from attribute name to string value, names
  neither case-normalised nor deduplicated, in which the N-th instance of a name can be
  recovered. An attribute without a value (a \<^verbatim>\<open>NULL\<close> value pointer) is stored with
  the empty string.
\<close>

definition sipe_utils_nameval_add ::
  "(string \<times> string) list \<Rightarrow> string \<Rightarrow> string option \<Rightarrow> (string \<times> string) list" where
  "sipe_utils_nameval_add l name val =
     l @ [(name, case val of None \<Rightarrow> [] | Some v \<Rightarrow> v)]"

fun sipe_utils_nameval_find_instance ::
  "(string \<times> string) list \<Rightarrow> string \<Rightarrow> nat \<Rightarrow> string option" where
  "sipe_utils_nameval_find_instance [] name which = None"
| "sipe_utils_nameval_find_instance ((n, v) # l) name which =
     (if n = name then
        (if which = 0 then Some v else sipe_utils_nameval_find_instance l name (which - 1))
      else sipe_utils_nameval_find_instance l name which)"

definition sipe_utils_nameval_find :: "(string \<times> string) list \<Rightarrow> string \<Rightarrow> string option" where
  "sipe_utils_nameval_find l name = sipe_utils_nameval_find_instance l name 0"

lemma nameval_find_instance_bound:
  "sipe_utils_nameval_find_instance l name i = Some v \<Longrightarrow> i < length l"
  by (induction l name i rule: sipe_utils_nameval_find_instance.induct)
     (auto split: if_splits)

subsection \<open>Codec Negotiator\<close>

text \<open>
  The body of the loop of \<^verbatim>\<open>sipe_media_parse_remote_codecs\<close> for one \<^verbatim>\<open>rtpmap\<close>
  value: \<^verbatim>\<open>atoi (tokens[0])\<close>, \<^verbatim>\<open>tokens[1]\<close>, \<^verbatim>\<open>atoi (tokens[2])\<close>.
\<close>

definition parse_rtpmap :: "string \<Rightarrow> fault + PurpleMediaCodec" where
  "parse_rtpmap attr =
     (let tokens = g_strsplit_set attr '' /'' 3 in
      fbind (vec_get tokens 0) (\<lambda>t0.
      fbind (atoi t0) (\<lambda>i.
      fbind (vec_get tokens 1) (\<lambda>codec_name.
      fbind (vec_get tokens 2) (\<lambda>t2.
      fbind (atoi t2) (\<lambda>rate.
      Inr (purple_media_codec_new i codec_name PURPLE_MEDIA_AUDIO rate)))))))"

function parse_remote_codecs_loop ::
  "(string \<times> string) list \<Rightarrow> nat \<Rightarrow> PurpleMediaCodec list \<Rightarrow> fault + PurpleMediaCodec list" where
  "parse_remote_codecs_loop attrs i codecs =
     (case sipe_utils_nameval_find_instance attrs ''rtpmap'' i of
        None \<Rightarrow> Inr codecs
      | Some attr \<Rightarrow>
          fbind (parse_rtpmap attr) (\<lambda>codec.
          parse_remote_codecs_loop attrs (i + 1) (codecs @ [codec])))"
  by pat_completeness auto
termination
  by (relation "measure (\<lambda>(attrs, i, codecs). length attrs - i)")
     (auto dest: nameval_find_instance_bound)

declare parse_remote_codecs_loop.simps [simp del]

definition sipe_media_parse_remote_codecs :: "sipe_media_call \<Rightarrow> fault + PurpleMediaCodec list" where
  "sipe_media_parse_remote_codecs call = parse_remote_codecs_loop (sdp_attrs call) 0 []"

definition codec_name_compare :: "PurpleMediaCodec \<Rightarrow> PurpleMediaCodec \<Rightarrow> int" where
  "codec_name_compare codec1 codec2 = g_strcmp0 (encoding_name codec1) (encoding_name codec2)"

text \<open>\<^verbatim>\<open>g_list_find_custom\<close>: the first element that compares equal (0) to the data.\<close>

fun g_list_find_custom :: "'a list \<Rightarrow> 'b \<Rightarrow> ('a \<Rightarrow> 'b \<Rightarrow> int) \<Rightarrow> 'a option" where
  "g_list_find_custom [] d func = None"
| "g_list_find_custom (x # l) d func =
     (if func x d = 0 then Some x else g_list_find_custom l d func)"

text \<open>The loop of \<^verbatim>\<open>sipe_media_prune_remote_codecs\<close> over the remote codecs.\<close>

fun prune_loop ::
  "PurpleMediaCodec list \<Rightarrow> PurpleMediaCodec list \<Rightarrow> PurpleMediaCodec list \<Rightarrow> PurpleMediaCodec list" where
  "prune_loop local [] pruned_codecs = pruned_codecs"
| "prune_loop local (c # rest) pruned_codecs =
     (if g_list_find_custom local c codec_name_compare \<noteq> None
      then prune_loop local rest (pruned_codecs @ [c])
      else prune_loop local rest pruned_codecs)"

definition sipe_media_prune_remote_codecs ::
  "PurpleMedia \<Rightarrow> PurpleMediaCodec list \<Rightarrow> PurpleMediaCodec list" where
  "sipe_media_prune_remote_codecs m codecs = prune_loop (local_codecs m) codecs []"

subsection \<open>Candidate Resolver\<close>

text \<open>
  Modelled from the spec: \<^verbatim>\<open>sipe_strequal\<close> is defined in \<^verbatim>\<open>sipe-utils.c\<close>,
  which is not among the sources; the spec has the transport and type tokens compared
  for exact equality with \<^verbatim>\<open>UDP\<close>, \<^verbatim>\<open>host\<close>, \<^verbatim>\<open>relay\<close> and \<^verbatim>\<open>srflx\<close>, and the
  call-id of an INVITE compared with the one of the active call.
\<close>

definition sipe_strequal :: "string option \<Rightarrow> string option \<Rightarrow> bool" where
  "sipe_strequal l r = (g_strcmp0 l r = 0)"

text \<open>
  The body of the loop of \<^verbatim>\<open>sipe_media_parse_remote_candidates\<close> for one
  \<^verbatim>\<open>candidate\<close> value; \<open>None\<close> is the \<^verbatim>\<open>continue\<close> of a skipped line. The
  priority is stored in a \<^verbatim>\<open>guint32\<close> and the port in a \<^verbatim>\<open>guint16\<close>.
\<close>

definition parse_candidate :: "string \<Rightarrow> fault + PurpleMediaCandidate option" where
  "parse_candidate attr =
     (let tokens = g_strsplit_set attr '' '' 0 in
      fbind (vec_get tokens 0) (\<lambda>found.
      fbind (vec_get tokens 1) (\<lambda>t1.
      fbind (atoi t1) (\<lambda>n.
      let component = (if n = 1 then PURPLE_MEDIA_COMPONENT_RTP
                       else if n = 2 then PURPLE_MEDIA_COMPONENT_RTCP
                       else PURPLE_MEDIA_COMPONENT_NONE) in
      fbind (vec_get tokens 2) (\<lambda>t2.
      if \<not> sipe_strequal t2 (Some ''UDP'') then Inr None
      else
      fbind (vec_get tokens 3) (\<lambda>t3.
      fbind (atoi t3) (\<lambda>prio.
      fbind (vec_get tokens 4) (\<lambda>addr.
      fbind (vec_get tokens 5) (\<lambda>t5.
      fbind (atoi t5) (\<lambda>p.
      fbind (vec_get tokens 7) (\<lambda>t7.
      if sipe_strequal t7 (Some ''host'') then
        Inr (Some ((purple_media_candidate_new found component
               PURPLE_MEDIA_CANDIDATE_TYPE_HOST PURPLE_MEDIA_NETWORK_PROTOCOL_UDP addr
               (p mod 2 ^ 16)) \<lparr>priority := prio mod 2 ^ 32\<rparr>))
      else if sipe_strequal t7 (Some ''relay'') then
        Inr (Some ((purple_media_candidate_new found component
               PURPLE_MEDIA_CANDIDATE_TYPE_RELAY PURPLE_MEDIA_NETWORK_PROTOCOL_UDP addr
               (p mod 2 ^ 16)) \<lparr>priority := prio mod 2 ^ 32\<rparr>))
      else if sipe_strequal t7 (Some ''srflx'') then
        Inr (Some ((purple_media_candidate_new found component
               PURPLE_MEDIA_CANDIDATE_TYPE_SRFLX PURPLE_MEDIA_NETWORK_PROTOCOL_UDP addr
               (p mod 2 ^ 16)) \<lparr>priority := prio mod 2 ^ 32\<rparr>))
      else Inr None)))))))))))"

function parse_remote_candidates_loop ::
  "(string \<times> string) list \<Rightarrow> nat \<Rightarrow> PurpleMediaCandidate list \<Rightarrow>
   fault + PurpleMediaCandidate list" where
  "parse_remote_candidates_loop attrs i candidates =
     (case sipe_utils_nameval_find_instance attrs ''candidate'' i of
        None \<Rightarrow> Inr candidates
      | Some attr \<Rightarrow>
          fbind (parse_candidate attr) (\<lambda>r.
          parse_remote_candidates_loop attrs (i + 1)
            (case r of None \<Rightarrow> candidates | Some c \<Rightarrow> candidates @ [c])))"
  by pat_completeness auto
termination
  by (relation "measure (\<lambda>(attrs, i, candidates). length attrs - i)")
     (auto dest: nameval_find_instance_bound)

declare parse_remote_candidates_loop.simps [simp del]

text \<open>
  \<^verbatim>\<open>sipe_media_parse_remote_candidates\<close> returns the candidates; the call it may
  have switched to legacy mode is returned with them.
\<close>

definition sipe_media_parse_remote_candidates ::
  "sipe_media_call \<Rightarrow> fault + (PurpleMediaCandidate list \<times> sipe_media_call)" where
  "sipe_media_parse_remote_candidates call =
     (let attrs = sdp_attrs call;
          user = sipe_utils_nameval_find attrs ''ice-ufrag'';
          pwd = sipe_utils_nameval_find attrs ''ice-pwd'' in
      fbind (parse_remote_candidates_loop attrs 0 []) (\<lambda>parsed.
      let (candidates, call') =
            (if parsed = [] then
               ([purple_media_candidate_new (Some ''foundation'')
                   PURPLE_MEDIA_COMPONENT_RTP PURPLE_MEDIA_CANDIDATE_TYPE_HOST
                   PURPLE_MEDIA_NETWORK_PROTOCOL_UDP (remote_ip call)
                   (uint (remote_port call)),
                 purple_media_candidate_new (Some ''foundation'')
                   PURPLE_MEDIA_COMPONENT_RTCP PURPLE_MEDIA_CANDIDATE_TYPE_HOST
                   PURPLE_MEDIA_NETWORK_PROTOCOL_UDP (remote_ip call)
                   (uint (remote_port call) + 1)],
                call \<lparr>legacy_mode := True\<rparr>)
             else (parsed, call)) in
      Inr (case user of
             None \<Rightarrow> candidates
           | Some u \<Rightarrow> map (\<lambda>c. c \<lparr>username := Some u, password := pwd\<rparr>) candidates,
           call')))"

subsection \<open>SDP Codec: parse\<close>

text \<open>
  The loop of \<^verbatim>\<open>sipe_media_parse_sdp_frame\<close> over the lines, with its locals
  \<^verbatim>\<open>sdp_attrs\<close>, \<^verbatim>\<open>remote_ip\<close> and \<^verbatim>\<open>remote_port\<close>; the result starts with
  \<^verbatim>\<open>no_error\<close>.
\<close>

fun parse_sdp_lines ::
  "string list \<Rightarrow> (string \<times> string) list \<Rightarrow> string option \<Rightarrow> 16 word \<Rightarrow>
   fault + (bool \<times> (string \<times> string) list \<times> string option \<times> 16 word)" where
  "parse_sdp_lines [] attrs rip rport = Inr (True, attrs, rip, rport)"
| "parse_sdp_lines (l # ls) attrs rip rport =
     (if g_str_has_prefix l ''a='' then
        (let parts = g_strsplit (drop 2 l) '':'' 2 in
         fbind (vec_get parts 0) (\<lambda>p0.
         case p0 of
           None \<Rightarrow> Inr (False, [], rip, rport)
         | Some name \<Rightarrow>
             fbind (vec_get parts 1) (\<lambda>p1.
             parse_sdp_lines ls (sipe_utils_nameval_add attrs name p1) rip rport)))
      else if g_str_has_prefix l ''o='' then
        (let parts = g_strsplit (drop 2 l) '' '' 6 in
         fbind (vec_get parts 5) (\<lambda>p5.
         parse_sdp_lines ls attrs p5 rport))
      else if g_str_has_prefix l ''m='' then
        (let parts = g_strsplit (drop 2 l) '' '' 3 in
         fbind (vec_get parts 1) (\<lambda>p1.
         fbind (atoi p1) (\<lambda>n.
         parse_sdp_lines ls attrs rip (word_of_int n))))
      else parse_sdp_lines ls attrs rip rport)"

definition sipe_media_parse_sdp_frame ::
  "sipe_media_call \<Rightarrow> string option \<Rightarrow> fault + (bool \<times> sipe_media_call)" where
  "sipe_media_parse_sdp_frame call frame =
     (case frame of
        None \<Rightarrow> Inl NullDeref
      | Some f \<Rightarrow>
          fbind (parse_sdp_lines (g_strsplit f CRLF 0) [] None 0)
            (\<lambda>(no_error, attrs, rip, rport).
               Inr (no_error,
                    if no_error
                    then call \<lparr>sdp_attrs := attrs, remote_ip := rip, remote_port := rport\<rparr>
                    else call)))"

subsection \<open>SDP Codec: format\<close>

fun sipe_media_sdp_codec_ids_format :: "PurpleMediaCodec list \<Rightarrow> string" where
  "sipe_media_sdp_codec_ids_format [] = []"
| "sipe_media_sdp_codec_ids_format (c # codecs) =
     ('' '' @ fmt_d (codec_id c)) @ sipe_media_sdp_codec_ids_format codecs"

fun fmtp_params :: "(string \<times> string) list \<Rightarrow> string" where
  "fmtp_params [] = []"
| "fmtp_params ((k, v) # params) = ('' '' @ k @ ''='' @ v) @ fmtp_params params"

fun sipe_media_sdp_codecs_format :: "PurpleMediaCodec list \<Rightarrow> string" where
  "sipe_media_sdp_codecs_format [] = []"
| "sipe_media_sdp_codecs_format (c # codecs) =
     (''a=rtpmap:'' @ fmt_d (codec_id c) @ '' '' @ fmt_s (encoding_name c) @ ''/''
        @ fmt_d (clock_rate c) @ CRLF)
     @ (if optional_parameters c \<noteq> []
        then ''a=fmtp:'' @ fmt_d (codec_id c) @ fmtp_params (optional_parameters c) @ CRLF
        else [])
     @ sipe_media_sdp_codecs_format codecs"

text \<open>
  The candidate loop of \<^verbatim>\<open>sipe_media_sdp_candidates_format\<close>, with its local
  \<^verbatim>\<open>rtcp_port\<close>. The locals \<^verbatim>\<open>component\<close> and \<^verbatim>\<open>type\<close> are set only in
  the cases of their \<^verbatim>\<open>switch\<close>; printing them otherwise reads an uninitialised
  variable.
\<close>

fun candidates_lines :: "PurpleMediaCandidate list \<Rightarrow> int \<Rightarrow> fault + (string \<times> int)" where
  "candidates_lines [] rtcp_port = Inr ([], rtcp_port)"
| "candidates_lines (c # candidates) rtcp_port =
     (let p = purple_media_candidate_get_port c in
      fbind (case component_id c of
               PURPLE_MEDIA_COMPONENT_RTP \<Rightarrow> Inr (1 :: int, rtcp_port)
             | PURPLE_MEDIA_COMPONENT_RTCP \<Rightarrow> Inr (2, if rtcp_port = 0 then p else rtcp_port)
             | PURPLE_MEDIA_COMPONENT_NONE \<Rightarrow> Inl Uninitialised) (\<lambda>(component, rtcp_port').
      let proto = (case protocol c of
                     PURPLE_MEDIA_NETWORK_PROTOCOL_TCP \<Rightarrow> ''TCP''
                   | PURPLE_MEDIA_NETWORK_PROTOCOL_UDP \<Rightarrow> ''UDP'') in
      fbind (case candidate_type c of
               PURPLE_MEDIA_CANDIDATE_TYPE_HOST \<Rightarrow> Inr ''host''
             | PURPLE_MEDIA_CANDIDATE_TYPE_RELAY \<Rightarrow> Inr ''relay''
             | PURPLE_MEDIA_CANDIDATE_TYPE_SRFLX \<Rightarrow> Inr ''srflx''
             | _ \<Rightarrow> Inl Uninitialised) (\<lambda>ty.
      fbind (candidates_lines candidates rtcp_port') (\<lambda>(lines, rtcp_port'').
      Inr ((''a=candidate:'' @ fmt_s (foundation c) @ '' '' @ fmt_u component @ '' ''
              @ proto @ '' '' @ fmt_u (priority c) @ '' '' @ fmt_s (ip c) @ '' ''
              @ fmt_d p @ '' typ '' @ ty @ '' '' @ CRLF) @ lines,
           rtcp_port'')))))"

text \<open>
  The \<^verbatim>\<open>a=remote-candidates\<close> line reads the first and the second element of
  \<^verbatim>\<open>call->remote_candidates\<close>.
\<close>

definition remote_candidates_line :: "PurpleMediaCandidate list \<Rightarrow> fault + string" where
  "remote_candidates_line cs =
     (case cs of
        [] \<Rightarrow> Inl NullDeref
      | [first] \<Rightarrow> Inl NullDeref
      | first # second # _ \<Rightarrow>
          Inr (''a=remote-candidates:1 '' @ fmt_s (ip first) @ '' ''
                 @ fmt_u (purple_media_candidate_get_port first) @ '' 2 ''
                 @ fmt_s (ip second) @ '' ''
                 @ fmt_u (purple_media_candidate_get_port second) @ CRLF))"

definition sipe_media_sdp_candidates_format ::
  "PurpleMediaCandidate list \<Rightarrow> sipe_media_call \<Rightarrow> bool \<Rightarrow> fault + string" where
  "sipe_media_sdp_candidates_format candidates call remote_candidate =
     (case candidates of
        [] \<Rightarrow> Inl NullDeref
      | c0 # _ \<Rightarrow>
          if legacy_mode call then Inr []
          else
            fbind (candidates_lines candidates 0) (\<lambda>(lines, rtcp_port).
            fbind (if remote_candidate then remote_candidates_line (remote_candidates call)
                   else Inr []) (\<lambda>remote_line.
            Inr (''a=ice-ufrag:'' @ fmt_s (username c0) @ CRLF
                   @ ''a=ice-pwd:'' @ fmt_s (password c0) @ CRLF
                   @ lines @ remote_line
                   @ (if rtcp_port \<noteq> 0
                      then ''a=maxptime:200'' @ CRLF @ ''a=rtcp:'' @ fmt_u rtcp_port @ CRLF
                      else [])))))"

text \<open>The \<^verbatim>\<open>g_strdup_printf\<close> template of \<^verbatim>\<open>sipe_media_create_sdp\<close>.\<close>

definition sdp_body ::
  "string \<Rightarrow> int \<Rightarrow> string \<Rightarrow> string \<Rightarrow> string \<Rightarrow> string \<Rightarrow> string" where
  "sdp_body addr local_port sdp_codec_ids sdp_candidates inactive sdp_codecs =
     ''v=0'' @ CRLF
     @ ''o=- 0 0 IN IP4 '' @ addr @ CRLF
     @ ''s=session'' @ CRLF
     @ ''c=IN IP4 '' @ addr @ CRLF
     @ ''b=CT:99980'' @ CRLF
     @ ''t=0 0'' @ CRLF
     @ ''m=audio '' @ fmt_d local_port @ '' RTP/AVP'' @ sdp_codec_ids @ CRLF
     @ sdp_candidates
     @ inactive
     @ sdp_codecs
     @ ''a=encryption:rejected'' @ CRLF"

text \<open>
  \<^verbatim>\<open>sipe_media_create_sdp\<close>. The local address is what
  \<^verbatim>\<open>sipe_utils_get_suitable_local_ip\<close> returns, a parameter here.
\<close>

definition sipe_media_create_sdp ::
  "string \<Rightarrow> sipe_media_call \<Rightarrow> bool \<Rightarrow> fault + string" where
  "sipe_media_create_sdp addr call remote_candidate =
     (case media call of
        None \<Rightarrow> Inl NullDeref
      | Some m \<Rightarrow>
     (case dialog call of
        None \<Rightarrow> Inl NullDeref
      | Some d \<Rightarrow>
     (case local_candidates m of
        [] \<Rightarrow> Inl NullDeref
      | lc # _ \<Rightarrow>
          fbind (sipe_media_sdp_candidates_format (local_candidates m) call remote_candidate)
            (\<lambda>sdp_candidates.
          Inr (sdp_body addr (purple_media_candidate_get_port lc)
                 (sipe_media_sdp_codec_ids_format (local_codecs m))
                 sdp_candidates
                 (if state call = SIPE_CALL_HELD then ''a=inactive'' @ CRLF else [])
                 (sipe_media_sdp_codecs_format (local_codecs m)))))))"

subsection \<open>The account, and what the source sends\<close>

text \<open>
  What the source hands to its collaborators, in the order of the calls:
  \<^verbatim>\<open>send_sip_response\<close> (message answered, status, reason, body),
  \<^verbatim>\<open>send_sip_request\<close> (method, target, headers, body), and the requests to the
  media engine.
\<close>

datatype effect =
  SendSipResponse "sipmsg option" int string "string option"
| SendSipRequest string "string option" string "string option"
| MediaStreamInfo PurpleMediaInfoType bool
| MediaAddStream string
| MediaAddRemoteCandidates "PurpleMediaCandidate list"
| MediaSetRemoteCodecs "PurpleMediaCodec list"

text \<open>
  \<^verbatim>\<open>struct sipe_account_data\<close>, as far as the source uses it: the one media call,
  the results of \<^verbatim>\<open>get_contact\<close> and \<^verbatim>\<open>sipe_utils_get_suitable_local_ip\<close>, and
  the effects so far.
\<close>

record sipe_account_data =
  media_call :: "sipe_media_call option"
  contact :: string
  local_ip :: string
  sent :: "effect list"

definition emit :: "effect \<Rightarrow> sipe_account_data \<Rightarrow> sipe_account_data" where
  "emit e sip = sip \<lparr>sent := sent sip @ [e]\<rparr>"

definition send_sip_response ::
  "sipe_account_data \<Rightarrow> sipmsg option \<Rightarrow> int \<Rightarrow> string \<Rightarrow> string option \<Rightarrow> sipe_account_data" where
  "send_sip_response sip msg code text b = emit (SendSipResponse msg code text b) sip"

definition send_sip_request ::
  "sipe_account_data \<Rightarrow> string \<Rightarrow> string option \<Rightarrow> string \<Rightarrow> string option \<Rightarrow>
   sipe_account_data" where
  "send_sip_request sip method to hdr b = emit (SendSipRequest method to hdr b) sip"

text \<open>
  Modelled from the spec: \<^verbatim>\<open>sipmsg_find_header\<close>, \<^verbatim>\<open>sipmsg_add_header\<close>,
  \<^verbatim>\<open>sipmsg_remove_header_now\<close> and \<^verbatim>\<open>sipmsg_add_header_now\<close> are defined in
  \<^verbatim>\<open>sipmsg.c\<close>, which is not among the sources; the spec counts them as raw header
  access and header rewrite utilities of the transport. Headers are a list of
  name and value, looked up by name.
\<close>

definition sipmsg_find_header :: "sipmsg \<Rightarrow> string \<Rightarrow> string option" where
  "sipmsg_find_header msg name = map_of (headers msg) name"

definition sipmsg_add_header :: "sipmsg \<Rightarrow> string \<Rightarrow> string \<Rightarrow> sipmsg" where
  "sipmsg_add_header msg name val = msg \<lparr>headers := headers msg @ [(name, val)]\<rparr>"

definition sipmsg_remove_header_now :: "sipmsg \<Rightarrow> string \<Rightarrow> sipmsg" where
  "sipmsg_remove_header_now msg name =
     msg \<lparr>headers := filter (\<lambda>h. fst h \<noteq> name) (headers msg)\<rparr>"

subsection \<open>Call State Machine\<close>

definition sipe_media_get_callid :: "sipe_media_call \<Rightarrow> fault + string option" where
  "sipe_media_get_callid call =
     (case dialog call of None \<Rightarrow> Inl NullDeref | Some d \<Rightarrow> Inr (callid d))"

text \<open>
  \<^verbatim>\<open>sipe_media_session_ready_cb\<close> is connected to the engine's
  \<^verbatim>\<open>candidates-prepared\<close> signal with the call as its argument; the call is the
  account's media call, and once that call is freed the argument dangles, which is a
  fault here.
\<close>

definition sipe_media_session_ready_cb :: "sipe_account_data \<Rightarrow> fault + sipe_account_data" where
  "sipe_media_session_ready_cb sip =
     (case media_call sip of
        None \<Rightarrow> Inl NullDeref
      | Some call \<Rightarrow>
     (case media call of
        None \<Rightarrow> Inl NullDeref
      | Some m \<Rightarrow>
          if \<not> candidates_prepared m then Inr sip
          else
            fbind (case sdp_response call of
                     None \<Rightarrow> fbind (sipe_media_create_sdp (local_ip sip) call False)
                               (\<lambda>b. Inr (call \<lparr>sdp_response := Some b\<rparr>))
                   | Some b \<Rightarrow> Inr call) (\<lambda>call'.
            if \<not> accepted m then
              (if \<not> legacy_mode call'
               then Inr (send_sip_response (sip \<lparr>media_call := Some call'\<rparr>)
                           (invitation call') 183 ''Session Progress'' (sdp_response call'))
               else Inr (sip \<lparr>media_call := Some call'\<rparr>))
            else
              Inr ((send_sip_response (sip \<lparr>media_call := Some call'\<rparr>)
                      (invitation call') 200 ''OK'' (sdp_response call'))
                   \<lparr>media_call := Some (call' \<lparr>state := SIPE_CALL_RUNNING\<rparr>)\<rparr>))))"

definition invite_hdr :: "string \<Rightarrow> SipeCallState \<Rightarrow> string" where
  "invite_hdr ct st =
     ''Supported: ms-sender'' @ CRLF
     @ ''ms-keep-alive: UAC;hop-hop=yes'' @ CRLF
     @ ''Contact: '' @ ct
     @ (if st = SIPE_CALL_HELD then '';+sip.rendering='' @ [CHR 0x22] @ ''no'' @ [CHR 0x22]
        else [])
     @ CRLF
     @ ''Supported: Replaces'' @ CRLF
     @ ''Content-Type: application/sdp'' @ CRLF"

definition sipe_invite_call :: "sipe_account_data \<Rightarrow> fault + sipe_account_data" where
  "sipe_invite_call sip =
     (case media_call sip of
        None \<Rightarrow> Inl NullDeref
      | Some call \<Rightarrow>
     (case dialog call of
        None \<Rightarrow> Inl NullDeref
      | Some d \<Rightarrow>
          fbind (sipe_media_create_sdp (local_ip sip) call True) (\<lambda>b.
          Inr (send_sip_request sip ''INVITE'' (dialog_with d)
                 (invite_hdr (contact sip) (state call)) (Some b)))))"

definition notify_state_change :: "sipe_account_data \<Rightarrow> bool \<Rightarrow> fault + sipe_account_data" where
  "notify_state_change sip local =
     (if local then sipe_invite_call sip
      else
        (case media_call sip of
           None \<Rightarrow> Inl NullDeref
         | Some call \<Rightarrow>
             fbind (sipe_media_create_sdp (local_ip sip) call True) (\<lambda>b.
             Inr (send_sip_response sip (invitation call) 200 ''OK'' (Some b)))))"

lemma notify_state_change_media_call:
  "notify_state_change sip local = Inr sip' \<Longrightarrow> media_call sip' = media_call sip"
  by (auto simp: notify_state_change_def sipe_invite_call_def send_sip_request_def
        send_sip_response_def emit_def fbind_eq_Inr
      split: if_splits option.splits)

text \<open>
  \<^verbatim>\<open>sipe_media_stream_info_cb\<close>, the handler of the engine's \<^verbatim>\<open>stream-info\<close>
  signal. \<^verbatim>\<open>purple_media_stream_info\<close> emits that signal, so the call of it at the
  end of the hold and unhold branches is the request to the engine followed by this
  handler again, with \<^verbatim>\<open>local\<close> true. Every branch of the handler dereferences
  the call, which is \<^verbatim>\<open>NULL\<close> when the account has none.
\<close>

function sipe_media_stream_info_cb ::
  "PurpleMediaInfoType \<Rightarrow> bool \<Rightarrow> sipe_account_data \<Rightarrow> fault + sipe_account_data" where
  "sipe_media_stream_info_cb ty local sip =
     (case media_call sip of
        None \<Rightarrow>
          if ty \<in> set [PURPLE_MEDIA_INFO_ACCEPT, PURPLE_MEDIA_INFO_REJECT,
                       PURPLE_MEDIA_INFO_HOLD, PURPLE_MEDIA_INFO_UNHOLD,
                       PURPLE_MEDIA_INFO_HANGUP]
          then Inl NullDeref
          else Inr sip
      | Some call \<Rightarrow>
          if ty = PURPLE_MEDIA_INFO_ACCEPT then sipe_media_session_ready_cb sip
          else if ty = PURPLE_MEDIA_INFO_REJECT then
            Inr ((send_sip_response sip (invitation call) 603 ''Decline'' None)
                 \<lparr>media_call := None\<rparr>)
          else if ty = PURPLE_MEDIA_INFO_HOLD then
            (if state call = SIPE_CALL_HELD then Inr sip
             else
               (case notify_state_change
                       (sip \<lparr>media_call := Some (call \<lparr>state := SIPE_CALL_HELD\<rparr>)\<rparr>) local of
                  Inl f \<Rightarrow> Inl f
                | Inr sip' \<Rightarrow>
                    sipe_media_stream_info_cb PURPLE_MEDIA_INFO_HOLD True
                      (emit (MediaStreamInfo PURPLE_MEDIA_INFO_HOLD True) sip')))
          else if ty = PURPLE_MEDIA_INFO_UNHOLD then
            (if state call = SIPE_CALL_RUNNING then Inr sip
             else
               (case notify_state_change
                       (sip \<lparr>media_call := Some (call \<lparr>state := SIPE_CALL_RUNNING\<rparr>)\<rparr>) local of
                  Inl f \<Rightarrow> Inl f
                | Inr sip' \<Rightarrow>
                    sipe_media_stream_info_cb PURPLE_MEDIA_INFO_UNHOLD True
                      (emit (MediaStreamInfo PURPLE_MEDIA_INFO_UNHOLD True) sip')))
          else if ty = PURPLE_MEDIA_INFO_HANGUP then
            (case dialog call of
               None \<Rightarrow> if local then Inl NullDeref else Inr (sip \<lparr>media_call := None\<rparr>)
             | Some d \<Rightarrow>
                 Inr ((if local
                       then send_sip_request sip ''BYE'' (dialog_with d) [] None
                       else sip) \<lparr>media_call := None\<rparr>))
          else Inr sip)"
  by pat_completeness auto
termination
proof (relation "measure (\<lambda>(ty, local, sip).
         case media_call sip of
           None \<Rightarrow> 0
         | Some call \<Rightarrow>
             if ty = PURPLE_MEDIA_INFO_HOLD \<and> state call \<noteq> SIPE_CALL_HELD then 1
             else if ty = PURPLE_MEDIA_INFO_UNHOLD \<and> state call \<noteq> SIPE_CALL_RUNNING then 1
             else 0)")
  show "wf (measure (\<lambda>(ty, local, sip).
         case media_call sip of
           None \<Rightarrow> 0
         | Some call \<Rightarrow>
             if ty = PURPLE_MEDIA_INFO_HOLD \<and> state call \<noteq> SIPE_CALL_HELD then 1
             else if ty = PURPLE_MEDIA_INFO_UNHOLD \<and> state call \<noteq> SIPE_CALL_RUNNING then 1
             else (0 :: nat)))"
    by simp
qed (auto dest!: notify_state_change_media_call simp: emit_def)

declare sipe_media_stream_info_cb.simps [simp del]

text \<open>\<^verbatim>\<open>purple_media_stream_info\<close>: the request to the engine, which emits
  \<^verbatim>\<open>stream-info\<close> to the handler connected in \<^verbatim>\<open>sipe_media_incoming_invite\<close>.\<close>

definition purple_media_stream_info ::
  "PurpleMediaInfoType \<Rightarrow> bool \<Rightarrow> sipe_account_data \<Rightarrow> fault + sipe_account_data" where
  "purple_media_stream_info ty local sip =
     sipe_media_stream_info_cb ty local (emit (MediaStreamInfo ty local) sip)"

definition sipe_media_hold :: "sipe_account_data \<Rightarrow> fault + sipe_account_data" where
  "sipe_media_hold sip =
     (if media_call sip \<noteq> None then purple_media_stream_info PURPLE_MEDIA_INFO_HOLD False sip
      else Inr sip)"

definition sipe_media_unhold :: "sipe_account_data \<Rightarrow> fault + sipe_account_data" where
  "sipe_media_unhold sip =
     (if media_call sip \<noteq> None then purple_media_stream_info PURPLE_MEDIA_INFO_UNHOLD False sip
      else Inr sip)"

definition sipe_media_hangup :: "sipe_account_data \<Rightarrow> fault + sipe_account_data" where
  "sipe_media_hangup sip =
     (if media_call sip \<noteq> None then purple_media_stream_info PURPLE_MEDIA_INFO_HANGUP False sip
      else Inr sip)"

subsection \<open>Call Registry / Dispatcher\<close>

text \<open>
  What \<^verbatim>\<open>sipe_media_incoming_invite\<close> obtains from its collaborators for a new
  call: the media session \<^verbatim>\<open>purple_media_manager_create_media\<close> creates, the tag
  \<^verbatim>\<open>gentag\<close> generates and the address \<^verbatim>\<open>parse_from\<close> extracts from the
  \<^verbatim>\<open>From\<close> header.
\<close>

record invite_env =
  new_media :: PurpleMedia
  new_tag :: string
  from_uri :: "string option"

text \<open>
  \<^verbatim>\<open>sipe_media_dialog_init\<close>: the \<^verbatim>\<open>To\<close> header of the message gets the new
  tag, and the dialog that \<^verbatim>\<open>sipe_dialog_add\<close> adds to the session gets the
  call-id of the session and the address of the caller.
\<close>

definition sipe_media_dialog_init ::
  "invite_env \<Rightarrow> sip_session \<Rightarrow> sipmsg \<Rightarrow> sip_dialog \<times> sipmsg" where
  "sipe_media_dialog_init env sess msg =
     (let oldHeader = sipmsg_find_header msg ''To'';
          newHeader = fmt_s oldHeader @ '';tag='' @ new_tag env;
          msg' = sipmsg_add_header (sipmsg_remove_header_now msg ''To'') ''To'' newHeader
      in (\<lparr>callid = session_callid sess, dialog_with = from_uri env\<rparr>, msg'))"

text \<open>The call \<^verbatim>\<open>g_new0\<close> allocates: every field zero.\<close>

definition g_new0_call :: sipe_media_call where
  "g_new0_call =
     \<lparr>media = None, session = None, dialog = None, remote_ip = None, remote_port = 0,
      sdp_attrs = [], invitation = None, remote_candidates = [], remote_codecs = [],
      sdp_response = None, legacy_mode = False, state = SIPE_CALL_CONNECTING\<rparr>"

text \<open>\<^verbatim>\<open>sipe_media_call_init\<close>; \<open>None\<close> is its \<^verbatim>\<open>NULL\<close> result.\<close>

definition sipe_media_call_init :: "sipmsg \<Rightarrow> fault + sipe_media_call option" where
  "sipe_media_call_init msg =
     fbind (sipe_media_parse_sdp_frame g_new0_call (body msg)) (\<lambda>(no_error, call).
     if \<not> no_error then Inr None
     else
       fbind (sipe_media_parse_remote_candidates
                (call \<lparr>invitation := Some msg, legacy_mode := False,
                       state := SIPE_CALL_CONNECTING\<rparr>)) (\<lambda>(candidates, call').
       Inr (Some (call' \<lparr>remote_candidates := candidates\<rparr>))))"

text \<open>
  The last branch of the re-INVITE case of \<^verbatim>\<open>sipe_media_incoming_invite\<close>: the
  remote codecs are parsed and pruned again and the INVITE is answered.
\<close>

definition reinvite_negotiate ::
  "sipe_account_data \<Rightarrow> sipe_media_call \<Rightarrow> sipmsg \<Rightarrow> fault + sipe_account_data" where
  "reinvite_negotiate sip call msg =
     fbind (sipe_media_parse_remote_codecs call) (\<lambda>codecs.
     case media call of
       None \<Rightarrow> Inl NullDeref
     | Some m \<Rightarrow>
         let call' = call \<lparr>remote_codecs := sipe_media_prune_remote_codecs m codecs\<rparr>;
             sip' = emit (MediaSetRemoteCodecs (remote_codecs call'))
                      (sip \<lparr>media_call := Some call'\<rparr>)
         in fbind (sipe_media_create_sdp (local_ip sip) call' True) (\<lambda>rsp.
            Inr (send_sip_response sip' (Some msg) 200 ''OK'' (Some rsp))))"

text \<open>
  The start of the re-INVITE case: the message becomes the call's invitation and gets
  the \<^verbatim>\<open>Supported\<close> header, the attribute list of the call is freed and set to
  \<^verbatim>\<open>NULL\<close>, and the body is parsed into the call; the result of the parse is not
  looked at.
\<close>

definition reinvite_parse :: "sipe_media_call \<Rightarrow> sipmsg \<Rightarrow> fault + (sipe_media_call \<times> sipmsg)" where
  "reinvite_parse call msg =
     (let msg' = sipmsg_add_header (msg \<lparr>dont_free := True\<rparr>) ''Supported'' ''Replaces'' in
      fbind (sipe_media_parse_sdp_frame
               (call \<lparr>invitation := Some msg', sdp_attrs := []\<rparr>) (body msg'))
        (\<lambda>(no_error, call'). Inr (call', msg')))"

text \<open>
  The case of \<^verbatim>\<open>sipe_media_incoming_invite\<close> without a media call. The session
  that \<^verbatim>\<open>sipe_session_find_or_add_chat_by_callid\<close> finds or adds is the one of
  the call-id of the message. A \<^verbatim>\<open>NULL\<close> from \<^verbatim>\<open>sipe_media_call_init\<close> is
  dereferenced.
\<close>

definition incoming_invite_new_call ::
  "sipe_account_data \<Rightarrow> sipmsg \<Rightarrow> invite_env \<Rightarrow> fault + sipe_account_data" where
  "incoming_invite_new_call sip msg env =
     fbind (sipe_media_call_init msg) (\<lambda>init.
     let sess = \<lparr>session_callid = sipmsg_find_header msg ''Call-ID''\<rparr>;
         (d, msg') = sipe_media_dialog_init env sess msg
     in case init of
          None \<Rightarrow> Inl NullDeref
        | Some call0 \<Rightarrow>
            let msg'' = msg' \<lparr>dont_free := True\<rparr>;
                call = call0 \<lparr>session := Some sess, dialog := Some d,
                              media := Some (new_media env), invitation := Some msg''\<rparr>;
                sip1 = emit (MediaAddStream (if legacy_mode call then ''rawudp'' else ''nice'')) sip;
                sip2 = emit (MediaAddRemoteCandidates (remote_candidates call)) sip1
            in fbind (sipe_media_parse_remote_codecs call) (\<lambda>codecs.
               let call' = call \<lparr>remote_codecs :=
                                   sipe_media_prune_remote_codecs (new_media env) codecs\<rparr>
               in if remote_candidates call' = [] \<or> remote_codecs call' = []
                  then Inr (sip2 \<lparr>media_call := None\<rparr>)
                  else Inr (send_sip_response
                              ((emit (MediaSetRemoteCodecs (remote_codecs call')) sip2)
                                 \<lparr>media_call := Some call'\<rparr>)
                              (Some msg'') 180 ''Ringing'' None)))"

definition sipe_media_incoming_invite ::
  "sipe_account_data \<Rightarrow> sipmsg \<Rightarrow> invite_env \<Rightarrow> fault + sipe_account_data" where
  "sipe_media_incoming_invite sip msg env =
     (case media_call sip of
        Some call \<Rightarrow>
          fbind (sipe_media_get_callid call) (\<lambda>cid.
          if sipe_strequal cid (sipmsg_find_header msg ''Call-ID'') then
            fbind (reinvite_parse call msg) (\<lambda>(call', msg').
            let sip' = sip \<lparr>media_call := Some call'\<rparr> in
            if legacy_mode call' \<and> state call' = SIPE_CALL_RUNNING then sipe_media_hold sip'
            else if sipe_utils_nameval_find (sdp_attrs call') ''inactive'' \<noteq> None
              then sipe_media_hold sip'
            else if state call' = SIPE_CALL_HELD then sipe_media_unhold sip'
            else reinvite_negotiate sip' call' msg')
          else Inr sip)
      | None \<Rightarrow> incoming_invite_new_call sip msg env)"

subsection \<open>Events of an account\<close>

text \<open>
  The entry points of the file: an INVITE from the transport, the engine's two signals,
  the three requests of the user interface, and a change of what the engine reports
  for the call's media session.
\<close>

datatype event =
  IncomingInvite sipmsg invite_env
| StreamInfo PurpleMediaInfoType bool
| CandidatesPrepared
| Hold
| Unhold
| Hangup
| EngineChanged PurpleMedia

fun step :: "sipe_account_data \<Rightarrow> event \<Rightarrow> fault + sipe_account_data" where
  "step sip (IncomingInvite msg env) = sipe_media_incoming_invite sip msg env"
| "step sip (StreamInfo ty local) = sipe_media_stream_info_cb ty local sip"
| "step sip CandidatesPrepared = sipe_media_session_ready_cb sip"
| "step sip Hold = sipe_media_hold sip"
| "step sip Unhold = sipe_media_unhold sip"
| "step sip Hangup = sipe_media_hangup sip"
| "step sip (EngineChanged m) =
     Inr (sip \<lparr>media_call := map_option (\<lambda>call. call \<lparr>media := Some m\<rparr>) (media_call sip)\<rparr>)"

fun run :: "sipe_account_data \<Rightarrow> event list \<Rightarrow> fault + sipe_account_data" where
  "run sip [] = Inr sip"
| "run sip (e # es) = fbind (step sip e) (\<lambda>sip'. run sip' es)"

text \<open>
  The events of one call's lifetime: processing stops at the event that destroys the
  call.
\<close>

fun run_call :: "sipe_account_data \<Rightarrow> event list \<Rightarrow> fault + sipe_account_data" where
  "run_call sip [] = Inr sip"
| "run_call sip (e # es) =
     fbind (step sip e) (\<lambda>sip'.
       if media_call sip' = None then Inr sip' else run_call sip' es)"

subsection \<open>The negotiation as the overview of the spec words it\<close>

text \<open>
  The overview of the spec has the negotiator intersect the local codecs with the
  remote ones by name, preserving local ordering and local identifiers: the local codecs
  whose name the remote side offers, in local order.
\<close>

definition codec_intersection_local_order ::
  "PurpleMediaCodec list \<Rightarrow> PurpleMediaCodec list \<Rightarrow> PurpleMediaCodec list" where
  "codec_intersection_local_order local remote =
     filter (\<lambda>l. encoding_name l \<in> encoding_name ` set remote) local"

subsection \<open>Inputs, preconditions and observations of the statements\<close>

definition audio_codec :: "int \<Rightarrow> string \<Rightarrow> int \<Rightarrow> PurpleMediaCodec" where
  "audio_codec i name rate = purple_media_codec_new i (Some name) PURPLE_MEDIA_AUDIO rate"

definition engine_with_codecs :: "PurpleMediaCodec list \<Rightarrow> PurpleMedia" where
  "engine_with_codecs cs =
     \<lparr>local_codecs = cs, local_candidates = [], candidates_prepared = False, accepted = False\<rparr>"

text \<open>The values of the instances of a name in an attribute list, in order.\<close>

definition nameval_instances :: "(string \<times> string) list \<Rightarrow> string \<Rightarrow> string list" where
  "nameval_instances attrs name = map snd (filter (\<lambda>p. fst p = name) attrs)"

text \<open>An offer whose two candidate lines are a TCP candidate and a candidate of a
  type that is not recognised.\<close>

definition filtered_offer :: sipe_media_call where
  "filtered_offer = g_new0_call
     \<lparr>remote_ip := Some ''10.0.0.5'', remote_port := 5004,
      sdp_attrs := [(''candidate'', ''1 1 TCP 100 10.0.0.5 5004 typ host''),
                    (''candidate'', ''1 1 UDP 100 10.0.0.5 5004 typ prflx''),
                    (''rtpmap'', ''0 PCMU/8000'')]\<rparr>"

text \<open>
  An engine session with the local codec PCMU and a local RTP and RTCP candidate,
  candidates prepared and the call accepted by the user; an account without a call; an
  INVITE with a call-id and an SDP body.
\<close>

definition local_candidate :: "PurpleMediaComponentType \<Rightarrow> int \<Rightarrow> PurpleMediaCandidate" where
  "local_candidate cid p =
     (purple_media_candidate_new (Some ''1'') cid PURPLE_MEDIA_CANDIDATE_TYPE_HOST
        PURPLE_MEDIA_NETWORK_PROTOCOL_UDP (Some ''192.0.2.1'') p)
     \<lparr>username := Some ''lu'', password := Some ''lp''\<rparr>"

definition engine0 :: PurpleMedia where
  "engine0 =
     \<lparr>local_codecs = [audio_codec 0 ''PCMU'' 8000],
      local_candidates = [local_candidate PURPLE_MEDIA_COMPONENT_RTP 6000,
                          local_candidate PURPLE_MEDIA_COMPONENT_RTCP 6001],
      candidates_prepared = True, accepted = True\<rparr>"

definition env0 :: invite_env where
  "env0 = \<lparr>new_media = engine0, new_tag = ''t1'', from_uri = Some ''sip:bob@example.com''\<rparr>"

definition sip0 :: sipe_account_data where
  "sip0 = \<lparr>media_call = None, contact = ''<sip:alice@example.com>'',
           local_ip = ''192.0.2.1'', sent = []\<rparr>"

definition invite :: "string \<Rightarrow> string \<Rightarrow> sipmsg" where
  "invite cid b =
     \<lparr>headers = [(''Call-ID'', cid), (''To'', ''<sip:alice@example.com>''),
                 (''From'', ''<sip:bob@example.com>'')],
      body = Some b, dont_free = False\<rparr>"

text \<open>The offer of the end-to-end example of the spec: no candidate line.\<close>

definition legacy_sdp :: string where
  "legacy_sdp =
     ''o=- 0 0 IN IP4 10.0.0.5'' @ CRLF
     @ ''m=audio 5004 RTP/AVP 0'' @ CRLF
     @ ''a=rtpmap:0 PCMU/8000'' @ CRLF"

text \<open>An offer with ICE credentials and one accepted candidate line, and one with two.\<close>

definition one_candidate_sdp :: string where
  "one_candidate_sdp =
     ''o=- 0 0 IN IP4 10.0.0.5'' @ CRLF
     @ ''m=audio 5004 RTP/AVP 0'' @ CRLF
     @ ''a=ice-ufrag:ru'' @ CRLF
     @ ''a=ice-pwd:rp'' @ CRLF
     @ ''a=candidate:1 1 UDP 100 10.0.0.5 5004 typ host'' @ CRLF
     @ ''a=rtpmap:0 PCMU/8000'' @ CRLF"

definition two_candidate_sdp :: string where
  "two_candidate_sdp =
     ''o=- 0 0 IN IP4 10.0.0.5'' @ CRLF
     @ ''m=audio 5004 RTP/AVP 0'' @ CRLF
     @ ''a=ice-ufrag:ru'' @ CRLF
     @ ''a=ice-pwd:rp'' @ CRLF
     @ ''a=candidate:1 1 UDP 100 10.0.0.5 5004 typ host'' @ CRLF
     @ ''a=candidate:1 2 UDP 99 10.0.0.5 5005 typ host'' @ CRLF
     @ ''a=rtpmap:0 PCMU/8000'' @ CRLF"

text \<open>Observations of an outcome: the status, reason and body of the responses sent.\<close>

fun responses :: "effect list \<Rightarrow> (int \<times> string \<times> string option) list" where
  "responses [] = []"
| "responses (SendSipResponse msg code text b # es) = (code, text, b) # responses es"
| "responses (e # es) = responses es"

definition outcome ::
  "(sipe_account_data \<Rightarrow> 'a) \<Rightarrow> fault + sipe_account_data \<Rightarrow> fault + 'a" where
  "outcome f r = (case r of Inl e \<Rightarrow> Inl e | Inr sip \<Rightarrow> Inr (f sip))"

definition call_view :: "(sipe_media_call \<Rightarrow> 'a) \<Rightarrow> sipe_account_data \<Rightarrow> 'a option" where
  "call_view f sip = map_option f (media_call sip)"

definition statuses :: "sipe_account_data \<Rightarrow> (int \<times> string) list" where
  "statuses sip = map (\<lambda>(code, text, b). (code, text)) (responses (sent sip))"

text \<open>
  The 200 OK body for the end-to-end example of the spec with the engine session above,
  and the call of that example once it runs.
\<close>

definition legacy_answer_sdp :: string where
  "legacy_answer_sdp =
     ''v=0'' @ CRLF
     @ ''o=- 0 0 IN IP4 192.0.2.1'' @ CRLF
     @ ''s=session'' @ CRLF
     @ ''c=IN IP4 192.0.2.1'' @ CRLF
     @ ''b=CT:99980'' @ CRLF
     @ ''t=0 0'' @ CRLF
     @ ''m=audio 6000 RTP/AVP 0'' @ CRLF
     @ ''a=rtpmap:0 PCMU/8000'' @ CRLF
     @ ''a=encryption:rejected'' @ CRLF"

definition legacy_call :: sipe_media_call where
  "legacy_call = g_new0_call
     \<lparr>media := Some engine0,
      dialog := Some \<lparr>callid = Some ''abc'', dialog_with = Some ''sip:bob@example.com''\<rparr>,
      remote_ip := Some ''10.0.0.5'', remote_port := 5004,
      sdp_attrs := [(''rtpmap'', ''0 PCMU/8000'')],
      remote_candidates :=
        [purple_media_candidate_new (Some ''foundation'') PURPLE_MEDIA_COMPONENT_RTP
           PURPLE_MEDIA_CANDIDATE_TYPE_HOST PURPLE_MEDIA_NETWORK_PROTOCOL_UDP
           (Some ''10.0.0.5'') 5004,
         purple_media_candidate_new (Some ''foundation'') PURPLE_MEDIA_COMPONENT_RTCP
           PURPLE_MEDIA_CANDIDATE_TYPE_HOST PURPLE_MEDIA_NETWORK_PROTOCOL_UDP
           (Some ''10.0.0.5'') 5005],
      remote_codecs := [audio_codec 0 ''PCMU'' 8000],
      legacy_mode := True, state := SIPE_CALL_RUNNING\<rparr>"

text \<open>The latch as a predicate of the account: no call, or a call in legacy mode.\<close>

definition legacy_latched :: "sipe_account_data \<Rightarrow> bool" where
  "legacy_latched sip = (case media_call sip of None \<Rightarrow> True | Some call \<Rightarrow> legacy_mode call)"

text \<open>An account whose call is the running legacy call, and events of that call:
  re-INVITEs that offer ICE candidates, callbacks of the engine and a request of the
  user interface.\<close>

definition legacy_account :: sipe_account_data where
  "legacy_account = sip0 \<lparr>media_call := Some legacy_call\<rparr>"

definition latch_events :: "event list" where
  "latch_events =
     [IncomingInvite (invite ''abc'' two_candidate_sdp) env0,
      IncomingInvite (invite ''abc'' two_candidate_sdp) env0,
      IncomingInvite (invite ''abc'' two_candidate_sdp) env0,
      StreamInfo PURPLE_MEDIA_INFO_UNHOLD True,
      CandidatesPrepared,
      StreamInfo PURPLE_MEDIA_INFO_HOLD True,
      Unhold]"

text \<open>
  The calls on which \<^verbatim>\<open>sipe_media_create_sdp\<close> has defined behaviour: the call has
  its media session and its dialog, the engine has a local candidate, and, unless the
  call is in legacy mode, every local candidate has a component and a type that the
  switches of the formatter set a value for, and there are two remote candidates to
  read.
\<close>

definition candidate_printable :: "PurpleMediaCandidate \<Rightarrow> bool" where
  "candidate_printable c =
     (component_id c \<in> set [PURPLE_MEDIA_COMPONENT_RTP, PURPLE_MEDIA_COMPONENT_RTCP]
      \<and> candidate_type c \<in> set [PURPLE_MEDIA_CANDIDATE_TYPE_HOST,
            PURPLE_MEDIA_CANDIDATE_TYPE_RELAY, PURPLE_MEDIA_CANDIDATE_TYPE_SRFLX])"

definition sdp_formattable :: "sipe_media_call \<Rightarrow> bool" where
  "sdp_formattable call =
     (case media call of
        None \<Rightarrow> False
      | Some m \<Rightarrow>
          dialog call \<noteq> None \<and> local_candidates m \<noteq> []
          \<and> (legacy_mode call
             \<or> (list_all candidate_printable (local_candidates m)
                \<and> 2 \<le> length (remote_candidates call))))"

text \<open>
  The running call that the INVITE with the two-candidate offer creates once the user
  has accepted it (its session, invitation and cached response left out), the account
  with that call, and a re-INVITE of it with the same offer, which has no
  \<^verbatim>\<open>inactive\<close> attribute.
\<close>

definition offered_candidate ::
  "PurpleMediaComponentType \<Rightarrow> int \<Rightarrow> int \<Rightarrow> PurpleMediaCandidate" where
  "offered_candidate cid prio p =
     (purple_media_candidate_new (Some ''1'') cid PURPLE_MEDIA_CANDIDATE_TYPE_HOST
        PURPLE_MEDIA_NETWORK_PROTOCOL_UDP (Some ''10.0.0.5'') p)
     \<lparr>priority := prio, username := Some ''ru'', password := Some ''rp''\<rparr>"

definition ice_call :: sipe_media_call where
  "ice_call = g_new0_call
     \<lparr>media := Some engine0,
      dialog := Some \<lparr>callid = Some ''abc'', dialog_with = Some ''sip:bob@example.com''\<rparr>,
      remote_ip := Some ''10.0.0.5'', remote_port := 5004,
      sdp_attrs := [(''ice-ufrag'', ''ru''), (''ice-pwd'', ''rp''),
                    (''candidate'', ''1 1 UDP 100 10.0.0.5 5004 typ host''),
                    (''candidate'', ''1 2 UDP 99 10.0.0.5 5005 typ host''),
                    (''rtpmap'', ''0 PCMU/8000'')],
      remote_candidates := [offered_candidate PURPLE_MEDIA_COMPONENT_RTP 100 5004,
                            offered_candidate PURPLE_MEDIA_COMPONENT_RTCP 99 5005],
      remote_codecs := [audio_codec 0 ''PCMU'' 8000],
      legacy_mode := False, state := SIPE_CALL_RUNNING\<rparr>"

definition ice_account :: sipe_account_data where
  "ice_account = sip0 \<lparr>media_call := Some ice_call\<rparr>"

definition reinvite_msg :: sipmsg where
  "reinvite_msg = invite ''abc'' two_candidate_sdp"

definition reinvite_msg' :: sipmsg where
  "reinvite_msg' = sipmsg_add_header (reinvite_msg \<lparr>dont_free := True\<rparr>) ''Supported'' ''Replaces''"

text \<open>The SIP messages sent, requests by method and responses by reason, with their
  bodies; and whether each body contains \<^verbatim>\<open>a=inactive\<close>.\<close>

fun sip_messages :: "effect list \<Rightarrow> (string \<times> string option) list" where
  "sip_messages [] = []"
| "sip_messages (SendSipResponse msg code text b # es) = (text, b) # sip_messages es"
| "sip_messages (SendSipRequest method to hdr b # es) = (method, b) # sip_messages es"
| "sip_messages (e # es) = sip_messages es"

definition inactive_marks :: "sipe_account_data \<Rightarrow> (string \<times> bool option) list" where
  "inactive_marks sip =
     map (\<lambda>(k, b). (k, map_option (sublist ''a=inactive'') b)) (sip_messages (sent sip))"

text \<open>
  The lines on which the parser has defined behaviour: an \<^verbatim>\<open>o=\<close> line has at
  least five fields, so that its sixth field or the end of the vector is read, and an
  \<^verbatim>\<open>m=\<close> line has a second field for \<^verbatim>\<open>atoi\<close>. And the name of the attribute
  that a line declares, if it declares one.
\<close>

definition sdp_line_ok :: "string \<Rightarrow> bool" where
  "sdp_line_ok l =
     (if g_str_has_prefix l ''a='' then True
      else if g_str_has_prefix l ''o='' then 5 \<le> length (g_strsplit (drop 2 l) '' '' 6)
      else if g_str_has_prefix l ''m='' then 2 \<le> length (g_strsplit (drop 2 l) '' '' 3)
      else True)"

definition attribute_name :: "string \<Rightarrow> string option" where
  "attribute_name l =
     (if g_str_has_prefix l ''a=''
      then (case g_strsplit (drop 2 l) '':'' 2 of [] \<Rightarrow> None | n # _ \<Rightarrow> Some n)
      else None)"













section \<open>Properties\<close>

subsection \<open>Numbers read from the offer\<close>

text \<open>\<^verbatim>\<open>atoi\<close> on a clock rate, on a number with a sign and trailing text, and on
  numbers beyond the range of \<^verbatim>\<open>int\<close> and of \<^verbatim>\<open>long\<close>.\<close>

lemma atoi_str_values:
  "atoi_str ''8000'' = 8000 \<and> atoi_str '' -12 3'' = - 12
   \<and> atoi_str ''2147483648'' = - 2147483648 \<and> atoi_str ''4294967297'' = 1
   \<and> atoi_str ''99999999999999999999'' = - 1
   \<and> atoi_str ''-99999999999999999999'' = 0"
  by code_simp

subsection \<open>Codec negotiation\<close>

lemma strcmp_eq_0: "strcmp a b = 0 \<longleftrightarrow> a = b"
  by (induction a b rule: strcmp.induct) auto

lemma g_strcmp0_eq_0: "g_strcmp0 a b = 0 \<longleftrightarrow> a = b"
  by (cases a; cases b) (simp_all add: strcmp_eq_0)

lemma sipe_strequal_iff: "sipe_strequal a b \<longleftrightarrow> a = b"
  by (simp add: sipe_strequal_def g_strcmp0_eq_0)

lemma g_list_find_custom_None:
  "g_list_find_custom l d func = None \<longleftrightarrow> (\<forall>x \<in> set l. func x d \<noteq> 0)"
  by (induction l) auto

lemma find_local_codec:
  "g_list_find_custom local c codec_name_compare \<noteq> None
     \<longleftrightarrow> encoding_name c \<in> encoding_name ` set local"
proof -
  have "g_list_find_custom local c codec_name_compare \<noteq> None
          \<longleftrightarrow> (\<exists>x \<in> set local. encoding_name x = encoding_name c)"
    by (simp add: g_list_find_custom_None codec_name_compare_def g_strcmp0_eq_0)
  also have "\<dots> \<longleftrightarrow> encoding_name c \<in> encoding_name ` set local"
    by (metis image_iff)
  finally show ?thesis .
qed

lemma prune_loop_filter:
  "prune_loop local remote pruned
     = pruned @ filter (\<lambda>c. encoding_name c \<in> encoding_name ` set local) remote"
  by (induction remote arbitrary: pruned) (simp_all add: find_local_codec del: not_None_eq)

text \<open>
  C4. Codec negotiation returns, in the order of the remote offer, exactly the remote
  codecs whose encoding name is equal, byte for byte, to the encoding name of some local
  codec. With local codecs PCMU, G722 and remote codecs G722, PCMU, SPEEX the result is
  G722, PCMU; a remote \<^verbatim>\<open>pcmu\<close> does not match a local \<^verbatim>\<open>PCMU\<close>.
\<close>

theorem prune_keeps_matching_remote_codecs_in_remote_order:
  "sipe_media_prune_remote_codecs m remote
     = filter (\<lambda>c. encoding_name c \<in> encoding_name ` set (local_codecs m)) remote
   \<and> sipe_media_prune_remote_codecs
        (engine_with_codecs [audio_codec 0 ''PCMU'' 8000, audio_codec 9 ''G722'' 8000])
        [audio_codec 9 ''G722'' 8000, audio_codec 0 ''PCMU'' 8000, audio_codec 97 ''SPEEX'' 8000]
      = [audio_codec 9 ''G722'' 8000, audio_codec 0 ''PCMU'' 8000]
   \<and> sipe_media_prune_remote_codecs
        (engine_with_codecs [audio_codec 0 ''PCMU'' 8000])
        [audio_codec 0 ''pcmu'' 8000] = []"
  by (simp add: sipe_media_prune_remote_codecs_def prune_loop_filter engine_with_codecs_def
        audio_codec_def purple_media_codec_new_def)

text \<open>
  C5, as stated, fails: with local codecs PCMU (id 0), G722 (id 9) and the remote offer
  G722 (id 117), PCMU (id 0), the negotiation returns the identifiers 117, 0, in remote
  order, where the intersection in local order with the local identifiers is 0, 9.
\<close>

theorem prune_differs_from_local_order_intersection:
  "map codec_id (sipe_media_prune_remote_codecs
        (engine_with_codecs [audio_codec 0 ''PCMU'' 8000, audio_codec 9 ''G722'' 8000])
        [audio_codec 117 ''G722'' 8000, audio_codec 0 ''PCMU'' 8000]) = [117, 0]
   \<and> map codec_id (codec_intersection_local_order
        [audio_codec 0 ''PCMU'' 8000, audio_codec 9 ''G722'' 8000]
        [audio_codec 117 ''G722'' 8000, audio_codec 0 ''PCMU'' 8000]) = [0, 9]
   \<and> sipe_media_prune_remote_codecs
        (engine_with_codecs [audio_codec 0 ''PCMU'' 8000, audio_codec 9 ''G722'' 8000])
        [audio_codec 117 ''G722'' 8000, audio_codec 0 ''PCMU'' 8000]
      \<noteq> codec_intersection_local_order
        [audio_codec 0 ''PCMU'' 8000, audio_codec 9 ''G722'' 8000]
        [audio_codec 117 ''G722'' 8000, audio_codec 0 ''PCMU'' 8000]"
  by (simp add: sipe_media_prune_remote_codecs_def prune_loop_filter engine_with_codecs_def
        audio_codec_def purple_media_codec_new_def codec_intersection_local_order_def)

text \<open>
  C5, amended. Codec negotiation computes the intersection of the local and the remote
  codecs by encoding name, preserving the ordering of the remote list and the remote
  codec entries, hence the remote numeric identifiers: the result is a subsequence of
  the remote list, and its names are the names common to both lists.
\<close>

theorem prune_is_remote_subsequence_with_remote_entries:
  "subseq (sipe_media_prune_remote_codecs m remote) remote
   \<and> set (sipe_media_prune_remote_codecs m remote) \<subseteq> set remote
   \<and> encoding_name ` set (sipe_media_prune_remote_codecs m remote)
       = encoding_name ` set (local_codecs m) \<inter> encoding_name ` set remote"
proof -
  let ?P = "\<lambda>c. encoding_name c \<in> encoding_name ` set (local_codecs m)"
  have eq: "sipe_media_prune_remote_codecs m remote = filter ?P remote"
    by (simp add: sipe_media_prune_remote_codecs_def prune_loop_filter)
  have "encoding_name ` set (filter ?P remote)
          = encoding_name ` set (local_codecs m) \<inter> encoding_name ` set remote"
  proof (intro set_eqI iffI)
    fix n assume "n \<in> encoding_name ` set (filter ?P remote)"
    then show "n \<in> encoding_name ` set (local_codecs m) \<inter> encoding_name ` set remote"
      by auto
  next
    fix n assume "n \<in> encoding_name ` set (local_codecs m) \<inter> encoding_name ` set remote"
    then have n: "n \<in> encoding_name ` set (local_codecs m)" "n \<in> encoding_name ` set remote"
      by simp_all
    from n(2) obtain c where c: "n = encoding_name c" "c \<in> set remote"
      by (rule imageE)
    with n(1) have "c \<in> set (filter ?P remote)" by simp
    with c show "n \<in> encoding_name ` set (filter ?P remote)" by blast
  qed
  with eq show ?thesis by simp
qed

subsection \<open>Candidate resolution\<close>

lemma nameval_find_instance_nth:
  "sipe_utils_nameval_find_instance attrs name i =
     (if i < length (nameval_instances attrs name)
      then Some (nameval_instances attrs name ! i) else None)"
proof (induction attrs name i rule: sipe_utils_nameval_find_instance.induct)
  case (1 name which)
  then show ?case by (simp add: nameval_instances_def)
next
  case (2 n v l name which)
  then show ?case
    by (cases which) (auto simp: nameval_instances_def)
qed

lemma candidates_loop_all_skipped:
  "list_all (\<lambda>v. parse_candidate v = Inr None) (drop i (nameval_instances attrs ''candidate''))
   \<Longrightarrow> parse_remote_candidates_loop attrs i acc = Inr acc"
proof (induction attrs i acc rule: parse_remote_candidates_loop.induct)
  case (1 attrs i candidates)
  let ?vs = "nameval_instances attrs ''candidate''"
  show ?case
  proof (cases "i < length ?vs")
    case False
    then show ?thesis
      by (subst parse_remote_candidates_loop.simps) (simp add: nameval_find_instance_nth)
  next
    case True
    then have found: "sipe_utils_nameval_find_instance attrs ''candidate'' i = Some (?vs ! i)"
      by (simp add: nameval_find_instance_nth)
    from True have split: "drop i ?vs = ?vs ! i # drop (i + 1) ?vs"
      by (simp add: Cons_nth_drop_Suc)
    with "1.prems" have skipped: "parse_candidate (?vs ! i) = Inr None"
      and rest: "list_all (\<lambda>v. parse_candidate v = Inr None) (drop (i + 1) ?vs)"
      by simp_all
    from "1.IH" [OF found skipped rest] found skipped show ?thesis
      by (subst parse_remote_candidates_loop.simps) simp
  qed
qed

text \<open>
  C2. When no candidate line of the attribute set is accepted, that is, every
  \<^verbatim>\<open>candidate\<close> value (if there is any) is skipped for its transport or its type,
  the resolver returns exactly two candidates, a UDP host RTP candidate at the remote
  address and port and a UDP host RTCP candidate at the remote address and the next
  port (computed without wrap-around), and the call is in legacy mode afterwards.
\<close>

theorem no_accepted_candidate_gives_legacy_pair:
  assumes "list_all (\<lambda>v. parse_candidate v = Inr None)
             (nameval_instances (sdp_attrs call) ''candidate'')"
  shows "\<exists>rtp rtcp.
           sipe_media_parse_remote_candidates call
             = Inr ([rtp, rtcp], call \<lparr>legacy_mode := True\<rparr>)
         \<and> component_id rtp = PURPLE_MEDIA_COMPONENT_RTP
         \<and> candidate_type rtp = PURPLE_MEDIA_CANDIDATE_TYPE_HOST
         \<and> protocol rtp = PURPLE_MEDIA_NETWORK_PROTOCOL_UDP
         \<and> ip rtp = remote_ip call
         \<and> port rtp = uint (remote_port call)
         \<and> component_id rtcp = PURPLE_MEDIA_COMPONENT_RTCP
         \<and> candidate_type rtcp = PURPLE_MEDIA_CANDIDATE_TYPE_HOST
         \<and> protocol rtcp = PURPLE_MEDIA_NETWORK_PROTOCOL_UDP
         \<and> ip rtcp = remote_ip call
         \<and> port rtcp = uint (remote_port call) + 1"
proof -
  from assms have "parse_remote_candidates_loop (sdp_attrs call) 0 [] = Inr []"
    by (simp add: candidates_loop_all_skipped)
  then show ?thesis
    by (cases "sipe_utils_nameval_find (sdp_attrs call) ''ice-ufrag''")
       (simp_all add: sipe_media_parse_remote_candidates_def purple_media_candidate_new_def
          Let_def)
qed

lemma tcp_candidate_skipped:
  "parse_candidate ''1 1 TCP 100 10.0.0.5 5004 typ host'' = Inr None"
  by code_simp

lemma prflx_candidate_skipped:
  "parse_candidate ''1 1 UDP 100 10.0.0.5 5004 typ prflx'' = Inr None"
  by code_simp

theorem no_accepted_candidate_gives_legacy_pair_witness:
  "list_all (\<lambda>v. parse_candidate v = Inr None)
     (nameval_instances (sdp_attrs filtered_offer) ''candidate'')
   \<and> (\<exists>rtp rtcp.
         sipe_media_parse_remote_candidates filtered_offer
           = Inr ([rtp, rtcp], filtered_offer \<lparr>legacy_mode := True\<rparr>)
         \<and> ip rtp = Some ''10.0.0.5'' \<and> port rtp = 5004
         \<and> ip rtcp = Some ''10.0.0.5'' \<and> port rtcp = 5005)"
proof -
  have h: "list_all (\<lambda>v. parse_candidate v = Inr None)
     (nameval_instances (sdp_attrs filtered_offer) ''candidate'')"
    by (simp add: filtered_offer_def nameval_instances_def g_new0_call_def
          tcp_candidate_skipped prflx_candidate_skipped)
  have "uint (remote_port filtered_offer) = 5004" "remote_ip filtered_offer = Some ''10.0.0.5''"
    by (simp_all add: filtered_offer_def g_new0_call_def)
  with no_accepted_candidate_gives_legacy_pair [OF h] h show ?thesis
    by auto
qed

subsection \<open>Evaluations of the dispatcher\<close>

text \<open>
  C8. After the INVITE with call-id \<^verbatim>\<open>abc\<close> has created the call, an INVITE with
  call-id \<^verbatim>\<open>xyz\<close> leaves the account as it is, the active call included, and no
  response is sent for it: the only response is the 180 of the first INVITE. The claim
  has the second INVITE rejected with a busy-style response.
\<close>

theorem other_call_id_invite_gets_no_response:
  "outcome statuses (run sip0 [IncomingInvite (invite ''abc'' legacy_sdp) env0])
     = Inr [(180, ''Ringing'')]
   \<and> outcome statuses (run sip0 [IncomingInvite (invite ''abc'' legacy_sdp) env0,
                                 IncomingInvite (invite ''xyz'' legacy_sdp) env0])
     = Inr [(180, ''Ringing'')]
   \<and> run sip0 [IncomingInvite (invite ''abc'' legacy_sdp) env0,
               IncomingInvite (invite ''xyz'' legacy_sdp) env0]
     = run sip0 [IncomingInvite (invite ''abc'' legacy_sdp) env0]"
  by code_simp

text \<open>
  C1. The call created by the INVITE with call-id \<^verbatim>\<open>abc\<close> has the attribute
  \<^verbatim>\<open>rtpmap\<close>. A re-INVITE of that call whose body is the line \<^verbatim>\<open>a=\<close> leaves the
  call with an empty attribute list and an empty remote codec list, and is answered
  with 200 OK: the prior attributes are not kept and the failure of the parse is not
  surfaced.
\<close>

theorem malformed_reinvite_clears_attributes:
  "outcome (call_view sdp_attrs) (run sip0 [IncomingInvite (invite ''abc'' legacy_sdp) env0])
     = Inr (Some [(''rtpmap'', ''0 PCMU/8000'')])
   \<and> outcome (\<lambda>s. (call_view sdp_attrs s, call_view remote_codecs s, statuses s))
        (run sip0 [IncomingInvite (invite ''abc'' legacy_sdp) env0,
                   IncomingInvite (invite ''abc'' ''a='') env0])
     = Inr (Some [], Some [], [(180, ''Ringing''), (200, ''OK'')])"
  by code_simp

text \<open>
  C10. An INVITE whose offer has one accepted candidate line, accepted by the user,
  gives a running call that is not in legacy mode and has one remote candidate. A local
  hold of that call formats the \<^verbatim>\<open>a=remote-candidates\<close> line and dereferences the
  \<^verbatim>\<open>NULL\<close> that follows the only remote candidate.
\<close>

theorem one_remote_candidate_faults_on_hold:
  "outcome (\<lambda>s. (call_view (length \<circ> remote_candidates) s, call_view legacy_mode s,
                  call_view state s))
     (run sip0 [IncomingInvite (invite ''abc'' one_candidate_sdp) env0,
                StreamInfo PURPLE_MEDIA_INFO_ACCEPT True])
     = Inr (Some 1, Some False, Some SIPE_CALL_RUNNING)
   \<and> run sip0 [IncomingInvite (invite ''abc'' one_candidate_sdp) env0,
               StreamInfo PURPLE_MEDIA_INFO_ACCEPT True,
               StreamInfo PURPLE_MEDIA_INFO_HOLD True]
     = Inl NullDeref
   \<and> remote_candidates_line [c] = Inl NullDeref"
  by (intro conjI; code_simp)

text \<open>
  C9. The INVITE whose offer has two accepted candidate lines gives, once the user has
  accepted it, a running call on which the local hold does what the claim says: the
  call is held and an INVITE is sent whose body contains \<^verbatim>\<open>a=inactive\<close>. The
  INVITE whose offer has one accepted candidate line gives a running call as well,
  which is not in legacy mode. The local hold of that call sets its state and then
  dereferences \<^verbatim>\<open>NULL\<close> while the body of the INVITE is formatted: no INVITE is
  sent. The fault is the read of the second remote candidate for the
  \<^verbatim>\<open>a=remote-candidates\<close> line.
\<close>

theorem local_hold_of_one_candidate_call_faults:
  "outcome (\<lambda>s. (call_view state s, inactive_marks s))
     (run sip0 [IncomingInvite (invite ''abc'' two_candidate_sdp) env0,
                StreamInfo PURPLE_MEDIA_INFO_ACCEPT True,
                StreamInfo PURPLE_MEDIA_INFO_HOLD True])
     = Inr (Some SIPE_CALL_HELD,
            [(''Ringing'', None), (''OK'', Some False), (''INVITE'', Some True)])
   \<and> outcome (\<lambda>s. (call_view state s, call_view legacy_mode s, inactive_marks s))
     (run sip0 [IncomingInvite (invite ''abc'' one_candidate_sdp) env0,
                StreamInfo PURPLE_MEDIA_INFO_ACCEPT True])
     = Inr (Some SIPE_CALL_RUNNING, Some False, [(''Ringing'', None), (''OK'', Some False)])
   \<and> outcome (\<lambda>s. (call_view state s, inactive_marks s))
     (run sip0 [IncomingInvite (invite ''abc'' one_candidate_sdp) env0,
                StreamInfo PURPLE_MEDIA_INFO_ACCEPT True,
                StreamInfo PURPLE_MEDIA_INFO_HOLD True])
     = Inl NullDeref"
  by (intro conjI; code_simp)

subsection \<open>The formatter in legacy mode\<close>

text \<open>
  The end-to-end example of the spec: the offer has no candidate line, so the resolver
  synthesizes the two host candidates at 10.0.0.5:5004 and 10.0.0.5:5005 and the call
  is in legacy mode; PCMU is negotiated; accepted by the user, the call is answered
  with the body \<open>legacy_answer_sdp\<close>.
\<close>

lemma legacy_example_run:
  "outcome (\<lambda>s. (call_view legacy_mode s,
                  call_view (map (\<lambda>c. (component_id c, ip c, port c)) \<circ> remote_candidates) s,
                  call_view remote_codecs s,
                  responses (sent s)))
     (run sip0 [IncomingInvite (invite ''abc'' legacy_sdp) env0,
                StreamInfo PURPLE_MEDIA_INFO_ACCEPT True])
   = Inr (Some True,
          Some [(PURPLE_MEDIA_COMPONENT_RTP, Some ''10.0.0.5'', 5004),
                (PURPLE_MEDIA_COMPONENT_RTCP, Some ''10.0.0.5'', 5005)],
          Some [audio_codec 0 ''PCMU'' 8000],
          [(180, ''Ringing'', None), (200, ''OK'', Some legacy_answer_sdp)])"
  by code_simp

text \<open>
  C6, as stated, fails: the response formatted for the legacy example of the spec
  (offer without candidate lines, \<^verbatim>\<open>m=audio 5004\<close>) does not contain
  \<^verbatim>\<open>a=rtcp:5005\<close>.
\<close>

theorem legacy_example_answer_has_no_rtcp_line:
  "outcome (\<lambda>s. (call_view legacy_mode s, responses (sent s)))
     (run sip0 [IncomingInvite (invite ''abc'' legacy_sdp) env0,
                StreamInfo PURPLE_MEDIA_INFO_ACCEPT True])
   = Inr (Some True, [(180, ''Ringing'', None), (200, ''OK'', Some legacy_answer_sdp)])
   \<and> \<not> sublist ''a=rtcp:5005'' legacy_answer_sdp"
  by (intro conjI; code_simp)

text \<open>
  C6, amended. For every call in legacy mode, the candidate section of the formatter is
  empty: the ICE credential lines and the candidate lines are omitted, and with them
  the \<^verbatim>\<open>a=remote-candidates\<close>, \<^verbatim>\<open>a=maxptime\<close> and \<^verbatim>\<open>a=rtcp\<close> lines, so that
  the body is the template around the codec lines; the response formatted for the
  legacy example of the spec contains no \<^verbatim>\<open>a=rtcp\<close> line. (The formatter reads the
  first local candidate before it looks at the mode, so there has to be one.)
\<close>

theorem legacy_mode_omits_candidate_section:
  assumes "legacy_mode call" and "media call = Some m" and "dialog call = Some d"
    and "local_candidates m = lc # lcs"
  shows "sipe_media_sdp_candidates_format (local_candidates m) call remote_candidate = Inr []
   \<and> sipe_media_create_sdp addr call remote_candidate
       = Inr (sdp_body addr (purple_media_candidate_get_port lc)
                (sipe_media_sdp_codec_ids_format (local_codecs m)) []
                (if state call = SIPE_CALL_HELD then ''a=inactive'' @ CRLF else [])
                (sipe_media_sdp_codecs_format (local_codecs m)))
   \<and> outcome (\<lambda>s. responses (sent s))
       (run sip0 [IncomingInvite (invite ''abc'' legacy_sdp) env0,
                  StreamInfo PURPLE_MEDIA_INFO_ACCEPT True])
       = Inr [(180, ''Ringing'', None), (200, ''OK'', Some legacy_answer_sdp)]
   \<and> \<not> sublist ''a=rtcp'' legacy_answer_sdp"
proof (intro conjI)
  from assms
  show c: "sipe_media_sdp_candidates_format (local_candidates m) call remote_candidate = Inr []"
    by (simp add: sipe_media_sdp_candidates_format_def)
  from assms c show "sipe_media_create_sdp addr call remote_candidate
       = Inr (sdp_body addr (purple_media_candidate_get_port lc)
                (sipe_media_sdp_codec_ids_format (local_codecs m)) []
                (if state call = SIPE_CALL_HELD then ''a=inactive'' @ CRLF else [])
                (sipe_media_sdp_codecs_format (local_codecs m)))"
    by (simp add: sipe_media_create_sdp_def)
  show "outcome (\<lambda>s. responses (sent s))
       (run sip0 [IncomingInvite (invite ''abc'' legacy_sdp) env0,
                  StreamInfo PURPLE_MEDIA_INFO_ACCEPT True])
       = Inr [(180, ''Ringing'', None), (200, ''OK'', Some legacy_answer_sdp)]"
    by code_simp
  show "\<not> sublist ''a=rtcp'' legacy_answer_sdp"
    by code_simp
qed

theorem legacy_mode_omits_candidate_section_witness:
  "legacy_mode legacy_call \<and> media legacy_call = Some engine0
   \<and> local_candidates engine0 = local_candidate PURPLE_MEDIA_COMPONENT_RTP 6000
        # [local_candidate PURPLE_MEDIA_COMPONENT_RTCP 6001]
   \<and> sipe_media_sdp_candidates_format (local_candidates engine0) legacy_call True = Inr []
   \<and> sipe_media_create_sdp ''192.0.2.1'' legacy_call True = Inr legacy_answer_sdp"
proof -
  have h: "legacy_mode legacy_call" "media legacy_call = Some engine0"
    "dialog legacy_call = Some \<lparr>callid = Some ''abc'', dialog_with = Some ''sip:bob@example.com''\<rparr>"
    "local_candidates engine0 = local_candidate PURPLE_MEDIA_COMPONENT_RTP 6000
        # [local_candidate PURPLE_MEDIA_COMPONENT_RTCP 6001]"
    by (simp_all add: legacy_call_def g_new0_call_def engine0_def)
  have st: "state legacy_call = SIPE_CALL_RUNNING"
    by (simp add: legacy_call_def g_new0_call_def)
  have b: "sdp_body ''192.0.2.1''
             (purple_media_candidate_get_port (local_candidate PURPLE_MEDIA_COMPONENT_RTP 6000))
             (sipe_media_sdp_codec_ids_format (local_codecs engine0)) [] []
             (sipe_media_sdp_codecs_format (local_codecs engine0)) = legacy_answer_sdp"
    by code_simp
  from legacy_mode_omits_candidate_section [OF h, of True "''192.0.2.1''"] h st b
  show ?thesis by simp
qed

subsection \<open>Legacy mode is a latch\<close>

lemma parse_sdp_frame_fields:
  assumes "sipe_media_parse_sdp_frame call f = Inr (ok, call')"
  shows "media call' = media call" "session call' = session call" "dialog call' = dialog call"
    "invitation call' = invitation call" "remote_candidates call' = remote_candidates call"
    "remote_codecs call' = remote_codecs call" "sdp_response call' = sdp_response call"
    "legacy_mode call' = legacy_mode call" "state call' = state call"
  using assms
  by (auto simp: sipe_media_parse_sdp_frame_def fbind_eq_Inr split: option.splits if_splits)

lemma reinvite_parse_fields:
  assumes "reinvite_parse call msg = Inr (call', msg')"
  shows "msg' = sipmsg_add_header (msg \<lparr>dont_free := True\<rparr>) ''Supported'' ''Replaces''"
    "invitation call' = Some msg'"
    "media call' = media call" "session call' = session call" "dialog call' = dialog call"
    "remote_candidates call' = remote_candidates call"
    "remote_codecs call' = remote_codecs call" "sdp_response call' = sdp_response call"
    "legacy_mode call' = legacy_mode call" "state call' = state call"
  using assms
  by (auto simp: reinvite_parse_def Let_def fbind_eq_Inr dest: parse_sdp_frame_fields)

lemma session_ready_media_call:
  assumes "sipe_media_session_ready_cb sip = Inr sip'" and "media_call sip = Some call"
  shows "\<exists>call'. media_call sip' = Some call' \<and> legacy_mode call' = legacy_mode call"
proof (cases "media call")
  case None
  with assms show ?thesis by (simp add: sipe_media_session_ready_cb_def)
next
  case (Some m)
  show ?thesis
  proof (cases "candidates_prepared m")
    case False
    with assms Some show ?thesis by (simp add: sipe_media_session_ready_cb_def)
  next
    case True
    let ?r = "case sdp_response call of
                None \<Rightarrow> fbind (sipe_media_create_sdp (local_ip sip) call False)
                          (\<lambda>b. Inr (call \<lparr>sdp_response := Some b\<rparr>))
              | Some b \<Rightarrow> Inr call"
    from assms Some True obtain call' where r: "?r = Inr call'"
      by (cases ?r) (simp_all add: sipe_media_session_ready_cb_def)
    then have leg: "legacy_mode call' = legacy_mode call"
      by (cases "sdp_response call") (auto simp: fbind_eq_Inr)
    from assms Some True r have
      "media_call sip' = Some call' \<or> media_call sip' = Some (call' \<lparr>state := SIPE_CALL_RUNNING\<rparr>)"
      by (cases "accepted m"; cases "legacy_mode call'")
         (auto simp: sipe_media_session_ready_cb_def send_sip_response_def emit_def)
    with leg show ?thesis by auto
  qed
qed

lemma session_ready_legacy:
  "legacy_latched sip \<Longrightarrow> sipe_media_session_ready_cb sip = Inr sip' \<Longrightarrow> legacy_latched sip'"
proof (cases "media_call sip")
  case None
  assume "sipe_media_session_ready_cb sip = Inr sip'"
  with None show ?thesis by (simp add: sipe_media_session_ready_cb_def)
next
  case (Some call)
  assume "legacy_latched sip" "sipe_media_session_ready_cb sip = Inr sip'"
  with Some session_ready_media_call [of sip sip' call] show ?thesis
    by (auto simp: legacy_latched_def)
qed

lemma stream_info_cb_legacy:
  "legacy_latched sip \<Longrightarrow> sipe_media_stream_info_cb ty local sip = Inr sip'
   \<Longrightarrow> legacy_latched sip'"
proof (induction ty local sip rule: sipe_media_stream_info_cb.induct)
  case (1 ty local sip)
  show ?case
  proof (cases "media_call sip")
  case None
  with "1.prems" show ?thesis
    by (subst (asm) sipe_media_stream_info_cb.simps) (auto split: if_splits)
  next
  case (Some call)
  note call = this
  with "1.prems"(1) have leg: "legacy_mode call"
    by (simp add: legacy_latched_def)
  consider (accept) "ty = PURPLE_MEDIA_INFO_ACCEPT"
    | (hold) "ty = PURPLE_MEDIA_INFO_HOLD"
    | (unhold) "ty = PURPLE_MEDIA_INFO_UNHOLD"
    | (other) "ty \<noteq> PURPLE_MEDIA_INFO_ACCEPT" "ty \<noteq> PURPLE_MEDIA_INFO_HOLD"
              "ty \<noteq> PURPLE_MEDIA_INFO_UNHOLD"
    by blast
  then show ?thesis
  proof cases
    case accept
    with "1.prems" call show ?thesis
      by (subst (asm) sipe_media_stream_info_cb.simps) (auto dest: session_ready_legacy)
  next
    case hold
    show ?thesis
    proof (cases "state call = SIPE_CALL_HELD")
      case True
      with "1.prems" call hold show ?thesis
        by (subst (asm) sipe_media_stream_info_cb.simps) auto
    next
      case False
      let ?held = "sip \<lparr>media_call := Some (call \<lparr>state := SIPE_CALL_HELD\<rparr>)\<rparr>"
      from "1.prems"(2) call hold False obtain s1 where
        n: "notify_state_change ?held local = Inr s1"
        and r: "sipe_media_stream_info_cb PURPLE_MEDIA_INFO_HOLD True
                  (emit (MediaStreamInfo PURPLE_MEDIA_INFO_HOLD True) s1) = Inr sip'"
        by (subst (asm) sipe_media_stream_info_cb.simps) (auto split: sum.splits)
      from notify_state_change_media_call [OF n] leg
      have "legacy_latched (emit (MediaStreamInfo PURPLE_MEDIA_INFO_HOLD True) s1)"
        by (simp add: legacy_latched_def emit_def)
      with "1.IH"(1) [OF call _ _ hold False n] hold r show ?thesis
        by simp
    qed
  next
    case unhold
    show ?thesis
    proof (cases "state call = SIPE_CALL_RUNNING")
      case True
      with "1.prems" call unhold show ?thesis
        by (subst (asm) sipe_media_stream_info_cb.simps) auto
    next
      case False
      let ?run = "sip \<lparr>media_call := Some (call \<lparr>state := SIPE_CALL_RUNNING\<rparr>)\<rparr>"
      from "1.prems"(2) call unhold False obtain s1 where
        n: "notify_state_change ?run local = Inr s1"
        and r: "sipe_media_stream_info_cb PURPLE_MEDIA_INFO_UNHOLD True
                  (emit (MediaStreamInfo PURPLE_MEDIA_INFO_UNHOLD True) s1) = Inr sip'"
        by (subst (asm) sipe_media_stream_info_cb.simps) (auto split: sum.splits)
      from notify_state_change_media_call [OF n] leg
      have "legacy_latched (emit (MediaStreamInfo PURPLE_MEDIA_INFO_UNHOLD True) s1)"
        by (simp add: legacy_latched_def emit_def)
      with "1.IH"(2) [OF call _ _ _ unhold False n] unhold r show ?thesis
        by simp
    qed
  next
    case other
    with "1.prems" call show ?thesis
      by (subst (asm) sipe_media_stream_info_cb.simps)
         (auto simp: legacy_latched_def send_sip_response_def send_sip_request_def emit_def
            split: if_splits option.splits)
  qed
  qed
qed

lemma legacy_latched_emit [simp]: "legacy_latched (emit e sip) = legacy_latched sip"
  by (simp add: legacy_latched_def emit_def)

lemma purple_media_stream_info_legacy:
  "legacy_latched sip \<Longrightarrow> purple_media_stream_info ty local sip = Inr sip'
   \<Longrightarrow> legacy_latched sip'"
  unfolding purple_media_stream_info_def
  by (rule stream_info_cb_legacy [of "emit (MediaStreamInfo ty local) sip"]) simp_all

lemma hold_unhold_hangup_legacy:
  assumes "legacy_latched sip"
  shows "sipe_media_hold sip = Inr sip' \<Longrightarrow> legacy_latched sip'"
    and "sipe_media_unhold sip = Inr sip' \<Longrightarrow> legacy_latched sip'"
    and "sipe_media_hangup sip = Inr sip' \<Longrightarrow> legacy_latched sip'"
  using assms
  by (auto simp: sipe_media_hold_def sipe_media_unhold_def sipe_media_hangup_def
        split: if_splits dest: purple_media_stream_info_legacy)

lemma reinvite_negotiate_legacy:
  assumes "legacy_mode call" and "reinvite_negotiate sip call msg = Inr sip'"
  shows "legacy_latched sip'"
proof -
  from assms(2) obtain codecs where "sipe_media_parse_remote_codecs call = Inr codecs"
    and r: "(case media call of
              None \<Rightarrow> Inl NullDeref
            | Some m \<Rightarrow>
                let call' = call \<lparr>remote_codecs := sipe_media_prune_remote_codecs m codecs\<rparr>;
                    sip' = emit (MediaSetRemoteCodecs (remote_codecs call'))
                             (sip \<lparr>media_call := Some call'\<rparr>)
                in fbind (sipe_media_create_sdp (local_ip sip) call' True) (\<lambda>rsp.
                   Inr (send_sip_response sip' (Some msg) 200 ''OK'' (Some rsp)))) = Inr sip'"
    unfolding reinvite_negotiate_def fbind_eq_Inr by blast
  show ?thesis
  proof (cases "media call")
    case None
    with r show ?thesis by simp
  next
    case (Some m)
    with r assms(1) show ?thesis
      by (auto simp: Let_def fbind_eq_Inr send_sip_response_def emit_def legacy_latched_def)
  qed
qed

lemma incoming_invite_legacy:
  assumes "media_call sip = Some call" and "legacy_mode call"
    and "sipe_media_incoming_invite sip msg env = Inr sip'"
  shows "legacy_latched sip'"
proof -
  from assms(1,3) obtain cid where cid: "sipe_media_get_callid call = Inr cid"
    and r: "(if sipe_strequal cid (sipmsg_find_header msg ''Call-ID'') then
            fbind (reinvite_parse call msg) (\<lambda>(call', msg').
            let sip' = sip \<lparr>media_call := Some call'\<rparr> in
            if legacy_mode call' \<and> state call' = SIPE_CALL_RUNNING then sipe_media_hold sip'
            else if sipe_utils_nameval_find (sdp_attrs call') ''inactive'' \<noteq> None
              then sipe_media_hold sip'
            else if state call' = SIPE_CALL_HELD then sipe_media_unhold sip'
            else reinvite_negotiate sip' call' msg')
          else Inr sip) = Inr sip'"
    by (auto simp: sipe_media_incoming_invite_def fbind_eq_Inr)
  show ?thesis
  proof (cases "sipe_strequal cid (sipmsg_find_header msg ''Call-ID'')")
    case False
    with r assms(1,2) show ?thesis by (simp add: legacy_latched_def)
  next
    case True
    with r obtain call' msg' where p: "reinvite_parse call msg = Inr (call', msg')"
      and d: "(let sip' = sip \<lparr>media_call := Some call'\<rparr> in
            if legacy_mode call' \<and> state call' = SIPE_CALL_RUNNING then sipe_media_hold sip'
            else if sipe_utils_nameval_find (sdp_attrs call') ''inactive'' \<noteq> None
              then sipe_media_hold sip'
            else if state call' = SIPE_CALL_HELD then sipe_media_unhold sip'
            else reinvite_negotiate sip' call' msg') = Inr sip'"
      by (auto simp: fbind_eq_Inr)
    from reinvite_parse_fields(9) [OF p] assms(2) have leg: "legacy_mode call'" by simp
    then have l: "legacy_latched (sip \<lparr>media_call := Some call'\<rparr>)"
      by (simp add: legacy_latched_def)
    from d show ?thesis
      unfolding Let_def
      by (auto split: if_splits
            dest: hold_unhold_hangup_legacy [OF l] reinvite_negotiate_legacy [OF leg])
  qed
qed

lemma step_legacy:
  assumes "media_call sip = Some call" and "legacy_mode call" and "step sip e = Inr sip'"
  shows "legacy_latched sip'"
proof -
  from assms(1,2) have l: "legacy_latched sip" by (simp add: legacy_latched_def)
  show ?thesis
  proof (cases e)
    case (IncomingInvite msg env)
    with assms show ?thesis by (auto dest: incoming_invite_legacy)
  next
    case (StreamInfo ty local)
    with assms(3) l show ?thesis by (auto dest: stream_info_cb_legacy)
  next
    case CandidatesPrepared
    with assms(3) l show ?thesis by (auto dest: session_ready_legacy)
  next
    case Hold
    with assms(3) hold_unhold_hangup_legacy(1) [OF l] show ?thesis by simp
  next
    case Unhold
    with assms(3) hold_unhold_hangup_legacy(2) [OF l] show ?thesis by simp
  next
    case Hangup
    with assms(3) hold_unhold_hangup_legacy(3) [OF l] show ?thesis by simp
  next
    case (EngineChanged m)
    with assms show ?thesis by (auto simp: legacy_latched_def)
  qed
qed

text \<open>
  C3. Legacy mode is a one-way latch: from a call in legacy mode, whatever events
  follow (INVITEs, hold, unhold and accept callbacks, candidates-prepared callbacks,
  requests of the user interface, changes of the engine), the account either has lost
  the call, which ends the sequence, or its call is in legacy mode.
\<close>

theorem legacy_mode_is_latched:
  assumes "media_call sip = Some call" and "legacy_mode call"
    and "run_call sip events = Inr sip'"
  shows "case media_call sip' of None \<Rightarrow> True | Some call' \<Rightarrow> legacy_mode call'"
  using assms
proof (induction events arbitrary: sip call)
  case Nil
  then show ?case by simp
next
  case (Cons e es)
  from Cons.prems(3) obtain s1 where s1: "step sip e = Inr s1"
    and r: "(if media_call s1 = None then Inr s1 else run_call s1 es) = Inr sip'"
    by (auto simp: fbind_eq_Inr)
  from step_legacy [OF Cons.prems(1,2) s1] have l: "legacy_latched s1" .
  show ?case
  proof (cases "media_call s1")
    case None
    with r show ?thesis by simp
  next
    case (Some c1)
    with l have "legacy_mode c1" by (simp add: legacy_latched_def)
    with Cons.IH [OF Some] r Some show ?thesis by simp
  qed
qed

lemma latch_run:
  "outcome (\<lambda>s. (call_view legacy_mode s, call_view state s, statuses s))
     (run_call legacy_account latch_events)
   = Inr (Some True, Some SIPE_CALL_RUNNING, [(200, ''OK''), (200, ''OK''), (200, ''OK''), (200, ''OK''), (200, ''OK'')])"
  by code_simp

theorem legacy_mode_is_latched_witness:
  "media_call legacy_account = Some legacy_call \<and> legacy_mode legacy_call
   \<and> outcome (call_view legacy_mode) (run_call legacy_account latch_events) = Inr (Some True)"
proof -
  have h: "media_call legacy_account = Some legacy_call" "legacy_mode legacy_call"
    by (simp_all add: legacy_account_def legacy_call_def g_new0_call_def)
  have "outcome (call_view state) (run_call legacy_account latch_events)
          = Inr (Some SIPE_CALL_RUNNING)"
    by code_simp
  then obtain s c where s: "run_call legacy_account latch_events = Inr s"
    and c: "media_call s = Some c"
    by (cases "run_call legacy_account latch_events")
       (auto simp: outcome_def call_view_def)
  from legacy_mode_is_latched [OF h s] c have "legacy_mode c" by simp
  with h s c show ?thesis by (simp add: outcome_def call_view_def)
qed

subsection \<open>Re-INVITE, hold and unhold\<close>

lemma candidates_lines_total:
  "list_all candidate_printable cs \<Longrightarrow> \<exists>l r. candidates_lines cs rtcp = Inr (l, r)"
proof (induction cs arbitrary: rtcp)
  case Nil
  then show ?case by simp
next
  case (Cons c cs)
  then have p: "candidate_printable c" and rest: "list_all candidate_printable cs"
    by simp_all
  from p obtain k rtcp' where
    k: "(case component_id c of
           PURPLE_MEDIA_COMPONENT_RTP \<Rightarrow> Inr (1 :: int, rtcp)
         | PURPLE_MEDIA_COMPONENT_RTCP \<Rightarrow>
             Inr (2, if rtcp = 0 then purple_media_candidate_get_port c else rtcp)
         | PURPLE_MEDIA_COMPONENT_NONE \<Rightarrow> Inl Uninitialised) = Inr (k, rtcp')"
    by (cases "component_id c") (auto simp: candidate_printable_def)
  from p obtain ty where
    ty: "(case candidate_type c of
            PURPLE_MEDIA_CANDIDATE_TYPE_HOST \<Rightarrow> Inr ''host''
          | PURPLE_MEDIA_CANDIDATE_TYPE_RELAY \<Rightarrow> Inr ''relay''
          | PURPLE_MEDIA_CANDIDATE_TYPE_SRFLX \<Rightarrow> Inr ''srflx''
          | _ \<Rightarrow> Inl Uninitialised) = Inr ty"
    by (cases "candidate_type c") (auto simp: candidate_printable_def)
  from Cons.IH [OF rest, of rtcp'] obtain l r where "candidates_lines cs rtcp' = Inr (l, r)"
    by blast
  with k ty show ?case by (simp add: Let_def)
qed

lemma remote_candidates_line_total:
  "2 \<le> length cs \<Longrightarrow> \<exists>l. remote_candidates_line cs = Inr l"
  by (cases cs; cases "tl cs") (auto simp: remote_candidates_line_def)

lemma candidates_format_total:
  assumes "cands \<noteq> []"
    and "legacy_mode call \<or> (list_all candidate_printable cands
           \<and> 2 \<le> length (remote_candidates call))"
  shows "\<exists>s. sipe_media_sdp_candidates_format cands call rc = Inr s"
proof (cases "legacy_mode call")
  case True
  with assms(1) show ?thesis
    by (cases cands) (simp_all add: sipe_media_sdp_candidates_format_def)
next
  case False
  with assms(2) have p: "list_all candidate_printable cands"
    and two: "2 \<le> length (remote_candidates call)" by simp_all
  from candidates_lines_total [OF p, of 0] obtain l r where
    l: "candidates_lines cands 0 = Inr (l, r)" by blast
  from remote_candidates_line_total [OF two] obtain rl where
    rl: "remote_candidates_line (remote_candidates call) = Inr rl" by blast
  from assms(1) False l rl show ?thesis
    by (cases cands; cases rc) (simp_all add: sipe_media_sdp_candidates_format_def)
qed

lemma candidates_format_state [simp]:
  "sipe_media_sdp_candidates_format cands (call \<lparr>state := st\<rparr>) rc
     = sipe_media_sdp_candidates_format cands call rc"
  by (cases cands; cases "legacy_mode call"; cases rc)
     (simp_all add: sipe_media_sdp_candidates_format_def)

lemma create_sdp_cong:
  assumes "media c1 = media c2" "dialog c1 = dialog c2" "legacy_mode c1 = legacy_mode c2"
    "remote_candidates c1 = remote_candidates c2" "state c1 = state c2"
  shows "sipe_media_create_sdp addr c1 rc = sipe_media_create_sdp addr c2 rc"
proof -
  have "sipe_media_sdp_candidates_format cands c1 rc
          = sipe_media_sdp_candidates_format cands c2 rc" for cands
    using assms by (cases cands; cases "legacy_mode c2"; cases rc)
      (simp_all add: sipe_media_sdp_candidates_format_def)
  with assms show ?thesis
    by (simp add: sipe_media_create_sdp_def split: option.split list.split)
qed

lemma create_sdp_formattable:
  assumes "sdp_formattable call"
  shows "\<exists>pre post. \<forall>st.
           sipe_media_create_sdp addr (call \<lparr>state := st\<rparr>) rc
             = Inr (pre @ (if st = SIPE_CALL_HELD then ''a=inactive'' @ CRLF else []) @ post)"
proof -
  from assms obtain m where m: "media call = Some m"
    by (cases "media call") (simp_all add: sdp_formattable_def)
  with assms obtain d where d: "dialog call = Some d"
    by (auto simp: sdp_formattable_def)
  from assms m obtain lc lcs where lc: "local_candidates m = lc # lcs"
    by (cases "local_candidates m") (simp_all add: sdp_formattable_def)
  from assms m lc have "\<exists>s. sipe_media_sdp_candidates_format (local_candidates m) call rc = Inr s"
    by (intro candidates_format_total) (simp_all add: sdp_formattable_def)
  then obtain s where s: "sipe_media_sdp_candidates_format (lc # lcs) call rc = Inr s"
    using lc by auto
  let ?pre = "''v=0'' @ CRLF
     @ ''o=- 0 0 IN IP4 '' @ addr @ CRLF
     @ ''s=session'' @ CRLF
     @ ''c=IN IP4 '' @ addr @ CRLF
     @ ''b=CT:99980'' @ CRLF
     @ ''t=0 0'' @ CRLF
     @ ''m=audio '' @ fmt_d (purple_media_candidate_get_port lc) @ '' RTP/AVP''
     @ sipe_media_sdp_codec_ids_format (local_codecs m) @ CRLF
     @ s"
  let ?post = "sipe_media_sdp_codecs_format (local_codecs m) @ ''a=encryption:rejected'' @ CRLF"
  have "sipe_media_create_sdp addr (call \<lparr>state := st\<rparr>) rc
          = Inr (?pre @ (if st = SIPE_CALL_HELD then ''a=inactive'' @ CRLF else []) @ ?post)" for st
    using m d lc s by (simp add: sipe_media_create_sdp_def sdp_body_def)
  then show ?thesis by blast
qed

lemma stream_info_cb_hold_held:
  "media_call sip = Some call \<Longrightarrow> state call = SIPE_CALL_HELD
   \<Longrightarrow> sipe_media_stream_info_cb PURPLE_MEDIA_INFO_HOLD local sip = Inr sip"
  by (subst sipe_media_stream_info_cb.simps) simp

lemma stream_info_cb_unhold_running:
  "media_call sip = Some call \<Longrightarrow> state call = SIPE_CALL_RUNNING
   \<Longrightarrow> sipe_media_stream_info_cb PURPLE_MEDIA_INFO_UNHOLD local sip = Inr sip"
  by (subst sipe_media_stream_info_cb.simps) simp

lemma stream_info_cb_hold:
  assumes "media_call sip = Some call" and "state call \<noteq> SIPE_CALL_HELD"
    and "notify_state_change (sip \<lparr>media_call := Some (call \<lparr>state := SIPE_CALL_HELD\<rparr>)\<rparr>) local
           = Inr sip'"
  shows "sipe_media_stream_info_cb PURPLE_MEDIA_INFO_HOLD local sip
           = Inr (emit (MediaStreamInfo PURPLE_MEDIA_INFO_HOLD True) sip')"
proof -
  from notify_state_change_media_call [OF assms(3)]
  have "media_call (emit (MediaStreamInfo PURPLE_MEDIA_INFO_HOLD True) sip')
          = Some (call \<lparr>state := SIPE_CALL_HELD\<rparr>)"
    by (simp add: emit_def)
  then have "sipe_media_stream_info_cb PURPLE_MEDIA_INFO_HOLD True
               (emit (MediaStreamInfo PURPLE_MEDIA_INFO_HOLD True) sip')
             = Inr (emit (MediaStreamInfo PURPLE_MEDIA_INFO_HOLD True) sip')"
    by (rule stream_info_cb_hold_held) simp
  with assms show ?thesis
    by (subst sipe_media_stream_info_cb.simps) simp
qed

lemma stream_info_cb_unhold:
  assumes "media_call sip = Some call" and "state call \<noteq> SIPE_CALL_RUNNING"
    and "notify_state_change (sip \<lparr>media_call := Some (call \<lparr>state := SIPE_CALL_RUNNING\<rparr>)\<rparr>) local
           = Inr sip'"
  shows "sipe_media_stream_info_cb PURPLE_MEDIA_INFO_UNHOLD local sip
           = Inr (emit (MediaStreamInfo PURPLE_MEDIA_INFO_UNHOLD True) sip')"
proof -
  from notify_state_change_media_call [OF assms(3)]
  have "media_call (emit (MediaStreamInfo PURPLE_MEDIA_INFO_UNHOLD True) sip')
          = Some (call \<lparr>state := SIPE_CALL_RUNNING\<rparr>)"
    by (simp add: emit_def)
  then have "sipe_media_stream_info_cb PURPLE_MEDIA_INFO_UNHOLD True
               (emit (MediaStreamInfo PURPLE_MEDIA_INFO_UNHOLD True) sip')
             = Inr (emit (MediaStreamInfo PURPLE_MEDIA_INFO_UNHOLD True) sip')"
    by (rule stream_info_cb_unhold_running) simp
  with assms show ?thesis
    by (subst sipe_media_stream_info_cb.simps) simp
qed


lemma reinvite_parse_attrs:
  assumes "reinvite_parse call msg = Inr (call', msg')"
  shows "\<exists>b ok attrs rip rport.
           body msg = Some b
         \<and> parse_sdp_lines (g_strsplit b CRLF 0) [] None 0 = Inr (ok, attrs, rip, rport)
         \<and> sdp_attrs call' = (if ok then attrs else [])"
proof -
  let ?msg = "sipmsg_add_header (msg \<lparr>dont_free := True\<rparr>) ''Supported'' ''Replaces''"
  let ?c = "call \<lparr>invitation := Some ?msg, sdp_attrs := []\<rparr>"
  from assms obtain ok where p: "sipe_media_parse_sdp_frame ?c (body ?msg) = Inr (ok, call')"
    by (auto simp: reinvite_parse_def Let_def fbind_eq_Inr)
  have bm: "body ?msg = body msg" by (simp add: sipmsg_add_header_def)
  from p bm obtain b where b: "body msg = Some b"
    by (cases "body msg") (simp_all add: sipe_media_parse_sdp_frame_def)
  from p bm b obtain r where r: "parse_sdp_lines (g_strsplit b CRLF 0) [] None 0 = Inr r"
    by (cases "parse_sdp_lines (g_strsplit b CRLF 0) [] None 0")
       (simp_all add: sipe_media_parse_sdp_frame_def)
  obtain ok' attrs rip rport where r': "r = (ok', attrs, rip, rport)"
    by (cases r) auto
  from p bm b r r' have "sdp_attrs call' = (if ok' then attrs else [])"
    by (auto simp: sipe_media_parse_sdp_frame_def)
  with b r r' show ?thesis by blast
qed

lemma reinvite_branch:
  assumes "media_call sip = Some call" and "dialog call = Some d"
    and "callid d = sipmsg_find_header msg ''Call-ID''"
    and "reinvite_parse call msg = Inr (call', msg')"
  shows "sipe_media_incoming_invite sip msg env =
           (if legacy_mode call \<and> state call = SIPE_CALL_RUNNING
              then purple_media_stream_info PURPLE_MEDIA_INFO_HOLD False
                     (sip \<lparr>media_call := Some call'\<rparr>)
            else if sipe_utils_nameval_find (sdp_attrs call') ''inactive'' \<noteq> None
              then purple_media_stream_info PURPLE_MEDIA_INFO_HOLD False
                     (sip \<lparr>media_call := Some call'\<rparr>)
            else if state call = SIPE_CALL_HELD
              then purple_media_stream_info PURPLE_MEDIA_INFO_UNHOLD False
                     (sip \<lparr>media_call := Some call'\<rparr>)
            else reinvite_negotiate (sip \<lparr>media_call := Some call'\<rparr>) call' msg')"
proof -
  note f = reinvite_parse_fields [OF assms(4)]
  from assms(2) have cid: "sipe_media_get_callid call = Inr (callid d)"
    by (simp add: sipe_media_get_callid_def)
  from assms(3) have eq: "sipe_strequal (callid d) (sipmsg_find_header msg ''Call-ID'')"
    by (simp add: sipe_strequal_iff)
  show ?thesis
    using assms(1,4) cid eq f(9,10)
    by (simp add: sipe_media_incoming_invite_def Let_def sipe_media_hold_def
          sipe_media_unhold_def del: not_None_eq)
qed


lemma vec_get_in_range: "i \<le> length v \<Longrightarrow> \<exists>x. vec_get v i = Inr x"
  by (simp add: vec_get_def)

lemma parse_sdp_lines_total:
  "list_all sdp_line_ok ls \<Longrightarrow> \<not> isl (parse_sdp_lines ls attrs rip rport)"
proof (induction ls arbitrary: attrs rip rport)
  case Nil
  show ?case by simp
next
  case (Cons l ls)
  then have ok: "sdp_line_ok l" and rest: "list_all sdp_line_ok ls" by simp_all
  note IH = Cons.IH [OF rest]
  consider (a) "g_str_has_prefix l ''a=''"
    | (o) "\<not> g_str_has_prefix l ''a=''" "g_str_has_prefix l ''o=''"
    | (m) "\<not> g_str_has_prefix l ''a=''" "\<not> g_str_has_prefix l ''o=''"
          "g_str_has_prefix l ''m=''"
    | (other) "\<not> g_str_has_prefix l ''a=''" "\<not> g_str_has_prefix l ''o=''"
          "\<not> g_str_has_prefix l ''m=''"
    by blast
  then show ?case
  proof cases
    case a
    show ?thesis
    proof (cases "g_strsplit (drop 2 l) '':'' 2")
      case Nil
      with a show ?thesis by (simp add: vec_get_def)
    next
      case (Cons name ps)
      with a IH show ?thesis
        by (cases ps) (simp_all add: vec_get_def)
    qed
  next
    case o
    with ok have "5 \<le> length (g_strsplit (drop 2 l) '' '' 6)"
      by (simp add: sdp_line_ok_def)
    from vec_get_in_range [OF this] obtain p5 where
      p5: "vec_get (g_strsplit (drop 2 l) '' '' 6) 5 = Inr p5" by blast
    with o IH show ?thesis by simp
  next
    case m
    with ok have len: "2 \<le> length (g_strsplit (drop 2 l) '' '' 3)"
      by (simp add: sdp_line_ok_def)
    then have p1: "vec_get (g_strsplit (drop 2 l) '' '' 3) 1
                     = Inr (Some (g_strsplit (drop 2 l) '' '' 3 ! 1))"
      by (simp add: vec_get_def)
    with m IH show ?thesis by (simp add: atoi_def)
  next
    case other
    with IH show ?thesis by simp
  qed
qed

lemma reinvite_parse_total:
  assumes "body msg = Some b" and "list_all sdp_line_ok (g_strsplit b CRLF 0)"
  shows "\<exists>call'. reinvite_parse call msg
           = Inr (call', sipmsg_add_header (msg \<lparr>dont_free := True\<rparr>) ''Supported'' ''Replaces'')"
proof -
  from parse_sdp_lines_total [OF assms(2), of "[]" None 0] obtain r where
    "parse_sdp_lines (g_strsplit b CRLF 0) [] None 0 = Inr r"
    by (cases "parse_sdp_lines (g_strsplit b CRLF 0) [] None 0") auto
  with assms(1) show ?thesis
    by (cases r)
       (simp add: reinvite_parse_def Let_def sipe_media_parse_sdp_frame_def
          sipmsg_add_header_def)
qed

lemma parse_sdp_lines_names:
  "parse_sdp_lines ls attrs0 rip rport = Inr (ok, attrs, rip', rport')
   \<Longrightarrow> n \<in> fst ` set attrs
   \<Longrightarrow> n \<in> fst ` set attrs0 \<or> Some n \<in> attribute_name ` set ls"
proof (induction ls arbitrary: attrs0 rip rport)
  case Nil
  then show ?case by auto
next
  case (Cons l ls)
  consider (a) "g_str_has_prefix l ''a=''"
    | (o) "\<not> g_str_has_prefix l ''a=''" "g_str_has_prefix l ''o=''"
    | (m) "\<not> g_str_has_prefix l ''a=''" "\<not> g_str_has_prefix l ''o=''"
          "g_str_has_prefix l ''m=''"
    | (other) "\<not> g_str_has_prefix l ''a=''" "\<not> g_str_has_prefix l ''o=''"
          "\<not> g_str_has_prefix l ''m=''"
    by blast
  then show ?case
  proof cases
    case a
    show ?thesis
    proof (cases "g_strsplit (drop 2 l) '':'' 2")
      case Nil
      with a Cons.prems show ?thesis by (simp add: vec_get_def)
    next
      case (Cons name ps)
      with a have an: "attribute_name l = Some name"
        by (simp add: attribute_name_def)
      from a Cons Cons.prems(1) obtain p1 where
        r: "parse_sdp_lines ls (sipe_utils_nameval_add attrs0 name p1) rip rport
              = Inr (ok, attrs, rip', rport')"
        by (cases ps) (auto simp: vec_get_def Let_def)
      from Cons.IH [OF r Cons.prems(2)]
      have "n \<in> fst ` set attrs0 \<or> n = name \<or> Some n \<in> attribute_name ` set ls"
        by (auto simp: sipe_utils_nameval_add_def)
      with an show ?thesis by (auto simp: image_iff)
    qed
  next
    case o
    with Cons.prems(1) obtain p5 where
      "parse_sdp_lines ls attrs0 p5 rport = Inr (ok, attrs, rip', rport')"
      by (auto simp: fbind_eq_Inr)
    from Cons.IH [OF this Cons.prems(2)] show ?thesis by auto
  next
    case m
    with Cons.prems(1) obtain w where
      "parse_sdp_lines ls attrs0 rip w = Inr (ok, attrs, rip', rport')"
      by (auto simp: fbind_eq_Inr)
    from Cons.IH [OF this Cons.prems(2)] show ?thesis by auto
  next
    case other
    with Cons.prems(1) have "parse_sdp_lines ls attrs0 rip rport = Inr (ok, attrs, rip', rport')"
      by simp
    from Cons.IH [OF this Cons.prems(2)] show ?thesis by auto
  qed
qed

lemma nameval_find_instance_absent:
  "n \<notin> fst ` set l \<Longrightarrow> sipe_utils_nameval_find_instance l n i = None"
  by (induction l n i rule: sipe_utils_nameval_find_instance.induct) auto

lemma reinvite_parse_attribute_absent:
  assumes "reinvite_parse call msg = Inr (call', msg')" and "body msg = Some b"
    and "list_all (\<lambda>l. attribute_name l \<noteq> Some n) (g_strsplit b CRLF 0)"
  shows "sipe_utils_nameval_find (sdp_attrs call') n = None"
proof -
  from reinvite_parse_attrs [OF assms(1)] assms(2) obtain ok attrs rip rport where
    p: "parse_sdp_lines (g_strsplit b CRLF 0) [] None 0 = Inr (ok, attrs, rip, rport)"
    and a: "sdp_attrs call' = (if ok then attrs else [])"
    by auto
  from assms(3) have "Some n \<notin> attribute_name ` set (g_strsplit b CRLF 0)"
    by (auto simp: list_all_iff)
  with parse_sdp_lines_names [OF p, of n] have "n \<notin> fst ` set attrs"
    by auto
  with a show ?thesis
    by (simp add: sipe_utils_nameval_find_def nameval_find_instance_absent)
qed













lemma ice_call_reachable:
  "outcome (call_view (\<lambda>c. c \<lparr>session := None, invitation := None, sdp_response := None\<rparr>))
     (run sip0 [IncomingInvite (invite ''abc'' two_candidate_sdp) env0,
                StreamInfo PURPLE_MEDIA_INFO_ACCEPT True])
   = Inr (Some ice_call)"
  by code_simp

lemma ice_call_formattable: "sdp_formattable ice_call"
  by code_simp

lemma reinvite_msg_lines:
  "list_all sdp_line_ok (g_strsplit two_candidate_sdp CRLF 0)
   \<and> list_all (\<lambda>l. attribute_name l \<noteq> Some ''inactive'') (g_strsplit two_candidate_sdp CRLF 0)"
  by code_simp




text \<open>
  Hold and unhold on the calls that the formatter can format. A local hold event on
  such a call, when it runs, moves the call to held and sends an INVITE whose body
  contains the line \<^verbatim>\<open>a=inactive\<close>;
  a re-INVITE of the held call none of whose lines declares an \<^verbatim>\<open>inactive\<close>
  attribute then moves the call back to running and is answered with 200 OK, whose
  body is the body of that INVITE without the \<^verbatim>\<open>a=inactive\<close> line (the formatter
  leaves the place of the line empty); a hold event on the held call and an unhold
  event on the running call do nothing. The call need not be out of legacy mode for
  this.
\<close>

lemma hold_then_remote_unhold:
  assumes call: "media_call sip = Some call" and running: "state call = SIPE_CALL_RUNNING"
    and fmt: "sdp_formattable call" and d: "dialog call = Some d"
    and cid: "callid d = sipmsg_find_header msg ''Call-ID''"
    and b: "body msg = Some b" and ok: "list_all sdp_line_ok (g_strsplit b CRLF 0)"
    and na: "list_all (\<lambda>l. attribute_name l \<noteq> Some ''inactive'') (g_strsplit b CRLF 0)"
  shows "\<exists>pre post held resumed.
      sipe_media_stream_info_cb PURPLE_MEDIA_INFO_HOLD True sip = Inr held
    \<and> held = sip \<lparr>media_call := Some (call \<lparr>state := SIPE_CALL_HELD\<rparr>),
                  sent := sent sip @
                    [SendSipRequest ''INVITE'' (dialog_with d)
                       (invite_hdr (contact sip) SIPE_CALL_HELD)
                       (Some (pre @ ''a=inactive'' @ CRLF @ post)),
                     MediaStreamInfo PURPLE_MEDIA_INFO_HOLD True]\<rparr>
    \<and> sipe_media_incoming_invite held msg env = Inr resumed
    \<and> call_view state resumed = Some SIPE_CALL_RUNNING
    \<and> sent resumed = sent held @
         [MediaStreamInfo PURPLE_MEDIA_INFO_UNHOLD False,
          SendSipResponse
            (Some (sipmsg_add_header (msg \<lparr>dont_free := True\<rparr>) ''Supported'' ''Replaces''))
            200 ''OK'' (Some (pre @ post)),
          MediaStreamInfo PURPLE_MEDIA_INFO_UNHOLD True]
    \<and> sipe_media_stream_info_cb PURPLE_MEDIA_INFO_HOLD local held = Inr held
    \<and> sipe_media_stream_info_cb PURPLE_MEDIA_INFO_UNHOLD local sip = Inr sip"
proof -
  from create_sdp_formattable [OF fmt, of "local_ip sip" True] obtain pre post where
    sdp: "\<And>st. sipe_media_create_sdp (local_ip sip) (call \<lparr>state := st\<rparr>) True
            = Inr (pre @ (if st = SIPE_CALL_HELD then ''a=inactive'' @ CRLF else []) @ post)"
    by blast
  let ?hc = "call \<lparr>state := SIPE_CALL_HELD\<rparr>"
  let ?req = "SendSipRequest ''INVITE'' (dialog_with d)
                (invite_hdr (contact sip) SIPE_CALL_HELD)
                (Some (pre @ ''a=inactive'' @ CRLF @ post))"
  let ?msg = "sipmsg_add_header (msg \<lparr>dont_free := True\<rparr>) ''Supported'' ''Replaces''"
  define held where
    "held = sip \<lparr>media_call := Some ?hc,
                 sent := sent sip @ [?req, MediaStreamInfo PURPLE_MEDIA_INFO_HOLD True]\<rparr>"
  \<comment> \<open>the local hold\<close>
  have "notify_state_change (sip \<lparr>media_call := Some ?hc\<rparr>) True
          = Inr (emit ?req (sip \<lparr>media_call := Some ?hc\<rparr>))"
    using d sdp [of SIPE_CALL_HELD]
    by (simp add: notify_state_change_def sipe_invite_call_def send_sip_request_def)
  from stream_info_cb_hold [OF call _ this] running
  have hold: "sipe_media_stream_info_cb PURPLE_MEDIA_INFO_HOLD True sip = Inr held"
    by (simp add: held_def emit_def)
  \<comment> \<open>the re-INVITE without \<open>inactive\<close>\<close>
  from reinvite_parse_total [OF b ok, of ?hc] obtain call' where
    parse: "reinvite_parse ?hc msg = Inr (call', ?msg)"
    by blast
  note f = reinvite_parse_fields [OF parse]
  from reinvite_parse_attribute_absent [OF parse b na]
  have absent: "sipe_utils_nameval_find (sdp_attrs call') ''inactive'' = None" .
  have hmc: "media_call held = Some ?hc" by (simp add: held_def)
  have hd: "dialog ?hc = Some d" using d by simp
  let ?s1 = "emit (MediaStreamInfo PURPLE_MEDIA_INFO_UNHOLD False)
               (held \<lparr>media_call := Some call'\<rparr>)"
  let ?rsp = "SendSipResponse (Some ?msg) 200 ''OK'' (Some (pre @ post))"
  define resumed where
    "resumed = held \<lparr>media_call := Some (call' \<lparr>state := SIPE_CALL_RUNNING\<rparr>),
                    sent := sent held @
                      [MediaStreamInfo PURPLE_MEDIA_INFO_UNHOLD False, ?rsp,
                       MediaStreamInfo PURPLE_MEDIA_INFO_UNHOLD True]\<rparr>"
  have "sipe_media_create_sdp (local_ip sip) (call' \<lparr>state := SIPE_CALL_RUNNING\<rparr>) True
          = sipe_media_create_sdp (local_ip sip) (call \<lparr>state := SIPE_CALL_RUNNING\<rparr>) True"
    by (rule create_sdp_cong) (simp_all add: f)
  with sdp [of SIPE_CALL_RUNNING]
  have body: "sipe_media_create_sdp (local_ip sip) (call' \<lparr>state := SIPE_CALL_RUNNING\<rparr>) True
                = Inr (pre @ post)"
    by simp
  have n: "notify_state_change (?s1 \<lparr>media_call := Some (call' \<lparr>state := SIPE_CALL_RUNNING\<rparr>)\<rparr>)
             False
           = Inr (emit ?rsp (?s1 \<lparr>media_call := Some (call' \<lparr>state := SIPE_CALL_RUNNING\<rparr>)\<rparr>))"
    using body f(2)
    by (simp add: notify_state_change_def send_sip_response_def held_def emit_def)
  have s1mc: "media_call ?s1 = Some call'" by (simp add: emit_def)
  have st': "state call' \<noteq> SIPE_CALL_RUNNING" using f(10) by simp
  from stream_info_cb_unhold [OF s1mc st' n]
  have unhold: "purple_media_stream_info PURPLE_MEDIA_INFO_UNHOLD False
                  (held \<lparr>media_call := Some call'\<rparr>) = Inr resumed"
    by (simp add: purple_media_stream_info_def emit_def resumed_def)
  from reinvite_branch [OF hmc hd cid parse, of env] absent f(10) unhold
  have reinvite: "sipe_media_incoming_invite held msg env = Inr resumed"
    by simp
  have rs: "call_view state resumed = Some SIPE_CALL_RUNNING"
    by (simp add: resumed_def call_view_def)
  have sr: "sent resumed = sent held @
         [MediaStreamInfo PURPLE_MEDIA_INFO_UNHOLD False, ?rsp,
          MediaStreamInfo PURPLE_MEDIA_INFO_UNHOLD True]"
    by (simp add: resumed_def)
  have "sipe_media_stream_info_cb PURPLE_MEDIA_INFO_HOLD local held = Inr held"
    by (rule stream_info_cb_hold_held [OF hmc]) simp
  moreover have "sipe_media_stream_info_cb PURPLE_MEDIA_INFO_UNHOLD local sip = Inr sip"
    by (rule stream_info_cb_unhold_running [OF call running])
  ultimately show ?thesis
    using hold reinvite rs sr held_def by blast
qed

lemma hold_unhold_marks:
  "outcome (\<lambda>s. (call_view state s, inactive_marks s))
     (run ice_account [StreamInfo PURPLE_MEDIA_INFO_HOLD True])
     = Inr (Some SIPE_CALL_HELD, [(''INVITE'', Some True)])
   \<and> outcome (\<lambda>s. (call_view state s, inactive_marks s))
     (run ice_account [StreamInfo PURPLE_MEDIA_INFO_HOLD True,
                       IncomingInvite reinvite_msg env0])
     = Inr (Some SIPE_CALL_RUNNING, [(''INVITE'', Some True), (''OK'', Some False)])"
  by code_simp

lemma hold_then_remote_unhold_instance:
  "media_call ice_account = Some ice_call \<and> state ice_call = SIPE_CALL_RUNNING
   \<and> sdp_formattable ice_call
   \<and> dialog ice_call = Some \<lparr>callid = Some ''abc'', dialog_with = Some ''sip:bob@example.com''\<rparr>
   \<and> Some ''abc'' = sipmsg_find_header reinvite_msg ''Call-ID''
   \<and> body reinvite_msg = Some two_candidate_sdp
   \<and> list_all sdp_line_ok (g_strsplit two_candidate_sdp CRLF 0)
   \<and> list_all (\<lambda>l. attribute_name l \<noteq> Some ''inactive'') (g_strsplit two_candidate_sdp CRLF 0)
   \<and> (\<exists>pre post held resumed.
        run ice_account [StreamInfo PURPLE_MEDIA_INFO_HOLD True] = Inr held
      \<and> call_view state held = Some SIPE_CALL_HELD
      \<and> sent held = [SendSipRequest ''INVITE'' (Some ''sip:bob@example.com'')
                       (invite_hdr (contact ice_account) SIPE_CALL_HELD)
                       (Some (pre @ ''a=inactive'' @ CRLF @ post)),
                     MediaStreamInfo PURPLE_MEDIA_INFO_HOLD True]
      \<and> run held [IncomingInvite reinvite_msg env0] = Inr resumed
      \<and> call_view state resumed = Some SIPE_CALL_RUNNING
      \<and> sent resumed = sent held @ [MediaStreamInfo PURPLE_MEDIA_INFO_UNHOLD False,
                   SendSipResponse (Some reinvite_msg') 200 ''OK'' (Some (pre @ post)),
                   MediaStreamInfo PURPLE_MEDIA_INFO_UNHOLD True]
      \<and> run held [StreamInfo PURPLE_MEDIA_INFO_HOLD True] = Inr held
      \<and> run ice_account [StreamInfo PURPLE_MEDIA_INFO_UNHOLD True] = Inr ice_account)
   \<and> outcome (\<lambda>s. (call_view state s, inactive_marks s))
        (run ice_account [StreamInfo PURPLE_MEDIA_INFO_HOLD True,
                          IncomingInvite reinvite_msg env0])
       = Inr (Some SIPE_CALL_RUNNING, [(''INVITE'', Some True), (''OK'', Some False)])"
proof -
  let ?d = "\<lparr>callid = Some ''abc'', dialog_with = Some ''sip:bob@example.com''\<rparr>"
  have h: "media_call ice_account = Some ice_call" "state ice_call = SIPE_CALL_RUNNING"
    "dialog ice_call = Some ?d" "sent ice_account = []"
    by (simp_all add: ice_account_def ice_call_def g_new0_call_def sip0_def)
  have cid: "callid ?d = sipmsg_find_header reinvite_msg ''Call-ID''"
    by (simp add: reinvite_msg_def invite_def sipmsg_find_header_def)
  have b: "body reinvite_msg = Some two_candidate_sdp"
    by (simp add: reinvite_msg_def invite_def)
  note lines = reinvite_msg_lines [THEN conjunct1] reinvite_msg_lines [THEN conjunct2]
  from hold_then_remote_unhold [OF h(1,2) ice_call_formattable h(3) cid b lines, of env0 True]
  obtain pre post held resumed where
    r: "sipe_media_stream_info_cb PURPLE_MEDIA_INFO_HOLD True ice_account = Inr held"
      "held = ice_account \<lparr>media_call := Some (ice_call \<lparr>state := SIPE_CALL_HELD\<rparr>),
                  sent := sent ice_account @
                    [SendSipRequest ''INVITE'' (dialog_with ?d)
                       (invite_hdr (contact ice_account) SIPE_CALL_HELD)
                       (Some (pre @ ''a=inactive'' @ CRLF @ post)),
                     MediaStreamInfo PURPLE_MEDIA_INFO_HOLD True]\<rparr>"
      "sipe_media_incoming_invite held reinvite_msg env0 = Inr resumed"
      "call_view state resumed = Some SIPE_CALL_RUNNING"
      "sent resumed = sent held @
         [MediaStreamInfo PURPLE_MEDIA_INFO_UNHOLD False,
          SendSipResponse
            (Some (sipmsg_add_header (reinvite_msg \<lparr>dont_free := True\<rparr>) ''Supported'' ''Replaces''))
            200 ''OK'' (Some (pre @ post)),
          MediaStreamInfo PURPLE_MEDIA_INFO_UNHOLD True]"
      "sipe_media_stream_info_cb PURPLE_MEDIA_INFO_HOLD True held = Inr held"
      "sipe_media_stream_info_cb PURPLE_MEDIA_INFO_UNHOLD True ice_account = Inr ice_account"
    by blast
  from r(2) h(4) have sh: "sent held = [SendSipRequest ''INVITE'' (Some ''sip:bob@example.com'')
                       (invite_hdr (contact ice_account) SIPE_CALL_HELD)
                       (Some (pre @ ''a=inactive'' @ CRLF @ post)),
                     MediaStreamInfo PURPLE_MEDIA_INFO_HOLD True]"
    and hs: "call_view state held = Some SIPE_CALL_HELD"
    by (simp_all add: call_view_def)
  from r(1,3,5,6,7) have runs:
    "run ice_account [StreamInfo PURPLE_MEDIA_INFO_HOLD True] = Inr held"
    "run held [IncomingInvite reinvite_msg env0] = Inr resumed"
    "sent resumed = sent held @ [MediaStreamInfo PURPLE_MEDIA_INFO_UNHOLD False,
                   SendSipResponse (Some reinvite_msg') 200 ''OK'' (Some (pre @ post)),
                   MediaStreamInfo PURPLE_MEDIA_INFO_UNHOLD True]"
    "run held [StreamInfo PURPLE_MEDIA_INFO_HOLD True] = Inr held"
    "run ice_account [StreamInfo PURPLE_MEDIA_INFO_UNHOLD True] = Inr ice_account"
    by (simp_all add: reinvite_msg'_def)
  from runs hs sh r(4) have ex: "\<exists>pre post held resumed.
        run ice_account [StreamInfo PURPLE_MEDIA_INFO_HOLD True] = Inr held
      \<and> call_view state held = Some SIPE_CALL_HELD
      \<and> sent held = [SendSipRequest ''INVITE'' (Some ''sip:bob@example.com'')
                       (invite_hdr (contact ice_account) SIPE_CALL_HELD)
                       (Some (pre @ ''a=inactive'' @ CRLF @ post)),
                     MediaStreamInfo PURPLE_MEDIA_INFO_HOLD True]
      \<and> run held [IncomingInvite reinvite_msg env0] = Inr resumed
      \<and> call_view state resumed = Some SIPE_CALL_RUNNING
      \<and> sent resumed = sent held @ [MediaStreamInfo PURPLE_MEDIA_INFO_UNHOLD False,
                   SendSipResponse (Some reinvite_msg') 200 ''OK'' (Some (pre @ post)),
                   MediaStreamInfo PURPLE_MEDIA_INFO_UNHOLD True]
      \<and> run held [StreamInfo PURPLE_MEDIA_INFO_HOLD True] = Inr held
      \<and> run ice_account [StreamInfo PURPLE_MEDIA_INFO_UNHOLD True] = Inr ice_account"
    by blast
  from cid have cid': "Some ''abc'' = sipmsg_find_header reinvite_msg ''Call-ID''" by simp
  from h(1,2,3) ice_call_formattable cid' b lines ex hold_unhold_marks [THEN conjunct2]
  show ?thesis by blast
qed

subsection \<open>The parser on an attribute line without a name\<close>

text \<open>
  The part of C1 that holds. The remainder of an \<^verbatim>\<open>a=\<close> line yields no attribute
  name exactly when the line is \<^verbatim>\<open>a=\<close> itself, and on a body with such a line
  (and lines the parser can read) \<^verbatim>\<open>sipe_media_parse_sdp_frame\<close> returns
  \<^verbatim>\<open>FALSE\<close> and leaves the call as it is. It is the re-INVITE branch of the
  dispatcher that empties the attribute list before the parse and does not look at the
  result.
\<close>

lemma g_strsplit_loop_nonempty: "g_strsplit_loop d n r \<noteq> []"
  by (subst g_strsplit_loop.simps) (simp split: option.split prod.split)

lemma g_strsplit_empty_iff: "g_strsplit s d n = [] \<longleftrightarrow> s = []"
  by (simp add: g_strsplit_def g_strsplit_loop_nonempty)

lemma attribute_without_name_iff:
  "g_str_has_prefix l ''a='' \<and> vec_get (g_strsplit (drop 2 l) '':'' 2) 0 = Inr None
     \<longleftrightarrow> l = ''a=''"
proof
  assume "g_str_has_prefix l ''a='' \<and> vec_get (g_strsplit (drop 2 l) '':'' 2) 0 = Inr None"
  then have p: "take (length ''a='') l = ''a=''" and e: "g_strsplit (drop 2 l) '':'' 2 = []"
    by (auto simp: g_str_has_prefix_def vec_get_def split: if_splits)
  from e have "drop 2 l = []" by (simp add: g_strsplit_empty_iff)
  moreover from p have "take 2 l = ''a=''" by (simp add: numeral_2_eq_2)
  ultimately show "l = ''a=''" by (metis append_take_drop_id append_Nil2)
next
  assume "l = ''a=''"
  then show "g_str_has_prefix l ''a='' \<and> vec_get (g_strsplit (drop 2 l) '':'' 2) 0 = Inr None"
    by (simp add: g_str_has_prefix_def g_strsplit_def vec_get_def)
qed

lemma parse_sdp_lines_empty_attribute:
  "''a='' \<in> set ls \<Longrightarrow> list_all sdp_line_ok ls
   \<Longrightarrow> \<exists>rip' rport'. parse_sdp_lines ls attrs rip rport = Inr (False, [], rip', rport')"
proof (induction ls arbitrary: attrs rip rport)
  case Nil
  then show ?case by simp
next
  case (Cons l ls)
  then have ok: "sdp_line_ok l" and rest: "list_all sdp_line_ok ls" by simp_all
  show ?case
  proof (cases "l = ''a=''")
    case True
    then show ?thesis
      by (simp add: g_str_has_prefix_def g_strsplit_def vec_get_def)
  next
    case False
    with Cons.prems(1) have mem: "''a='' \<in> set ls" by simp
    note IH = Cons.IH [OF mem rest]
    consider (a) "g_str_has_prefix l ''a=''"
      | (o) "\<not> g_str_has_prefix l ''a=''" "g_str_has_prefix l ''o=''"
      | (m) "\<not> g_str_has_prefix l ''a=''" "\<not> g_str_has_prefix l ''o=''"
            "g_str_has_prefix l ''m=''"
      | (other) "\<not> g_str_has_prefix l ''a=''" "\<not> g_str_has_prefix l ''o=''"
            "\<not> g_str_has_prefix l ''m=''"
      by blast
    then show ?thesis
    proof cases
      case a
      show ?thesis
      proof (cases "g_strsplit (drop 2 l) '':'' 2")
        case Nil
        with a show ?thesis by (simp add: vec_get_def)
      next
        case (Cons name ps)
        with a IH show ?thesis
          by (cases ps) (simp_all add: vec_get_def)
      qed
    next
      case o
      with ok have "5 \<le> length (g_strsplit (drop 2 l) '' '' 6)"
        by (simp add: sdp_line_ok_def)
      from vec_get_in_range [OF this] obtain p5 where
        "vec_get (g_strsplit (drop 2 l) '' '' 6) 5 = Inr p5" by blast
      with o IH show ?thesis by simp
    next
      case m
      with ok have "2 \<le> length (g_strsplit (drop 2 l) '' '' 3)"
        by (simp add: sdp_line_ok_def)
      then have "vec_get (g_strsplit (drop 2 l) '' '' 3) 1
                     = Inr (Some (g_strsplit (drop 2 l) '' '' 3 ! 1))"
        by (simp add: vec_get_def)
      with m IH show ?thesis by (simp add: atoi_def)
    next
      case other
      with IH show ?thesis by simp
    qed
  qed
qed

lemma parse_sdp_frame_rejects_empty_attribute:
  assumes "''a='' \<in> set (g_strsplit b CRLF 0)" and "list_all sdp_line_ok (g_strsplit b CRLF 0)"
  shows "sipe_media_parse_sdp_frame call (Some b) = Inr (False, call)"
proof -
  from parse_sdp_lines_empty_attribute [OF assms, of "[]" None 0] obtain rip' rport' where
    "parse_sdp_lines (g_strsplit b CRLF 0) [] None 0 = Inr (False, [], rip', rport')"
    by blast
  then show ?thesis by (simp add: sipe_media_parse_sdp_frame_def)
qed

end
